theory Spec2Isabelle
  imports Complex_Main "HOL-Library.Multiset"
begin

section \<open>The numpy fragment used by \<^verbatim>\<open>mlp.py\<close>\<close>

text \<open>
  The class \<^verbatim>\<open>MLP\<close> of \<^verbatim>\<open>src/mlp.py\<close> computes with two-dimensional numpy arrays
  of floats. An array is modelled with its column count and its rows, so that the shape
  \<^verbatim>\<open>(r, 0)\<close> and the shape \<^verbatim>\<open>(0, c)\<close> are both values; float64 numbers are idealised
  as real numbers (no rounding, no overflow of \<^verbatim>\<open>exp\<close>). Every numpy operation that
  checks shapes returns \<open>Inl ValueError\<close> where numpy raises.
\<close>

datatype error = IndexError | NameError | ValueError | TypeError

datatype ndarray = NDArray (ncols: nat) (rows: "real list list")

definition nrows :: "ndarray \<Rightarrow> nat" where
  "nrows a = length (rows a)"

definition shape :: "ndarray \<Rightarrow> nat \<times> nat" where
  "shape a = (nrows a, ncols a)"

definition elem :: "ndarray \<Rightarrow> nat \<Rightarrow> nat \<Rightarrow> real" where
  "elem a i j = rows a ! i ! j"

text \<open>The array of shape \<open>(r, c)\<close> whose entry \<open>(i, j)\<close> is \<open>f i j\<close>.\<close>

definition tabulate2 :: "nat \<Rightarrow> nat \<Rightarrow> (nat \<Rightarrow> nat \<Rightarrow> real) \<Rightarrow> ndarray" where
  "tabulate2 r c f = NDArray c (map (\<lambda>i. map (f i) [0..<c]) [0..<r])"

text \<open>
  \<^verbatim>\<open>ny.array(xs)\<close> on a nested Python list: a 2-D array when \<open>xs\<close> is non-empty and all
  its rows are as long as row 0; otherwise numpy (of the Python 2 era) builds a 1-D array,
  of dtype object holding the row lists when \<open>xs\<close> is ragged, and the empty float array
  when \<open>xs = []\<close>.
\<close>

datatype array_obj = Arr2 ndarray | Arr1 "real list list"

definition ny_array :: "real list list \<Rightarrow> array_obj" where
  "ny_array xs =
     (if xs \<noteq> [] \<and> list_all (\<lambda>r. length r = length (hd xs)) xs
      then Arr2 (NDArray (length (hd xs)) xs) else Arr1 xs)"

text \<open>\<^verbatim>\<open>ny.zeros((r, c))\<close>, \<^verbatim>\<open>-ny.ones((r, 1))\<close> and \<^verbatim>\<open>ny.transpose(a)\<close>.\<close>

definition ny_zeros :: "nat \<times> nat \<Rightarrow> ndarray" where
  "ny_zeros sh = tabulate2 (fst sh) (snd sh) (\<lambda>i j. 0)"

definition neg_ones :: "nat \<Rightarrow> ndarray" where
  "neg_ones r = tabulate2 r 1 (\<lambda>i j. - 1)"

definition ny_transpose :: "ndarray \<Rightarrow> ndarray" where
  "ny_transpose a = tabulate2 (ncols a) (nrows a) (\<lambda>i j. elem a j i)"

text \<open>\<^verbatim>\<open>ny.dot(a, b)\<close>: the matrix product; the inner dimensions must agree.\<close>

definition ny_dot :: "ndarray \<Rightarrow> ndarray \<Rightarrow> error + ndarray" where
  "ny_dot a b =
     (if ncols a = nrows b
      then Inr (tabulate2 (nrows a) (ncols b)
                  (\<lambda>i j. sum_list (map (\<lambda>k. elem a i k * elem b k j) [0..<ncols a])))
      else Inl ValueError)"

text \<open>\<^verbatim>\<open>ny.concatenate((a, b), axis = 1)\<close> of two 2-D arrays: the row counts must agree.\<close>

definition ny_concatenate :: "ndarray \<Rightarrow> ndarray \<Rightarrow> error + ndarray" where
  "ny_concatenate a b =
     (if nrows a = nrows b
      then Inr (tabulate2 (nrows a) (ncols a + ncols b)
                  (\<lambda>i j. if j < ncols a then elem a i j else elem b i (j - ncols a)))
      else Inl ValueError)"

text \<open>An elementwise operation with a scalar, such as \<^verbatim>\<open>1.0 - a\<close> or \<^verbatim>\<open>a ** 2\<close>.\<close>

definition arr_map :: "(real \<Rightarrow> real) \<Rightarrow> ndarray \<Rightarrow> ndarray" where
  "arr_map f a = tabulate2 (nrows a) (ncols a) (\<lambda>i j. f (elem a i j))"

text \<open>
  Elementwise operations of two arrays follow numpy's broadcasting: along each axis the
  lengths are equal or one of them is 1, and an axis of length 1 is stretched.
  \<open>arr_binop\<close> builds a new array (\<^verbatim>\<open>a - b\<close>); \<open>arr_inplace\<close> is the augmented
  assignment (\<^verbatim>\<open>a += b\<close>, \<^verbatim>\<open>a *= b\<close>), which moreover needs the broadcast shape to
  be the shape of \<open>a\<close>.
\<close>

definition broadcast_shape :: "nat \<times> nat \<Rightarrow> nat \<times> nat \<Rightarrow> (nat \<times> nat) option" where
  "broadcast_shape sa sb =
     (if (fst sa = fst sb \<or> fst sa = 1 \<or> fst sb = 1) \<and> (snd sa = snd sb \<or> snd sa = 1 \<or> snd sb = 1)
      then Some (if fst sa = 1 then fst sb else fst sa, if snd sa = 1 then snd sb else snd sa)
      else None)"

definition belem :: "ndarray \<Rightarrow> nat \<Rightarrow> nat \<Rightarrow> real" where
  "belem a i j = elem a (if nrows a = 1 then 0 else i) (if ncols a = 1 then 0 else j)"

definition arr_binop :: "(real \<Rightarrow> real \<Rightarrow> real) \<Rightarrow> ndarray \<Rightarrow> ndarray \<Rightarrow> error + ndarray" where
  "arr_binop f a b =
     (case broadcast_shape (shape a) (shape b) of
        None \<Rightarrow> Inl ValueError
      | Some sh \<Rightarrow> Inr (tabulate2 (fst sh) (snd sh) (\<lambda>i j. f (belem a i j) (belem b i j))))"

definition arr_inplace :: "(real \<Rightarrow> real \<Rightarrow> real) \<Rightarrow> ndarray \<Rightarrow> ndarray \<Rightarrow> error + ndarray" where
  "arr_inplace f a b =
     (case broadcast_shape (shape a) (shape b) of
        None \<Rightarrow> Inl ValueError
      | Some sh \<Rightarrow>
          if sh = shape a
          then Inr (tabulate2 (fst sh) (snd sh) (\<lambda>i j. f (elem a i j) (belem b i j)))
          else Inl ValueError)"

text \<open>
  \<^verbatim>\<open>t - o\<close> where \<open>t\<close> may be a 1-D array of \<open>k\<close> row lists: the shapes \<open>(k,)\<close> and
  \<open>(n, c)\<close> must broadcast, and then every element is a Python list minus a float, a
  TypeError, unless the result has no element at all.
\<close>

definition arr_sub :: "array_obj \<Rightarrow> ndarray \<Rightarrow> error + ndarray" where
  "arr_sub t b =
     (case t of
        Arr2 a \<Rightarrow> arr_binop (\<lambda>x y. x - y) a b
      | Arr1 xs \<Rightarrow>
          (if length xs = ncols b \<or> length xs = 1 \<or> ncols b = 1
           then (if nrows b = 0 \<or> (if length xs = 1 then ncols b else length xs) = 0
                 then Inr (tabulate2 (nrows b) (if length xs = 1 then ncols b else length xs) (\<lambda>i j. 0))
                 else Inl TypeError)
           else Inl ValueError))"

text \<open>
  \<^verbatim>\<open>a[idx,:]\<close> with a list of row indices: the rows in the order of \<open>idx\<close>; an index
  beyond the last row is an IndexError. A 1-D array has no second axis to slice.
\<close>

definition take_rows :: "ndarray \<Rightarrow> nat list \<Rightarrow> error + ndarray" where
  "take_rows a idx =
     (if list_all (\<lambda>i. i < nrows a) idx
      then Inr (NDArray (ncols a) (map (\<lambda>i. rows a ! i) idx))
      else Inl IndexError)"

definition take_rows_obj :: "array_obj \<Rightarrow> nat list \<Rightarrow> error + array_obj" where
  "take_rows_obj t idx =
     (case t of
        Arr2 a \<Rightarrow> (case take_rows a idx of Inl e \<Rightarrow> Inl e | Inr a' \<Rightarrow> Inr (Arr2 a'))
      | Arr1 xs \<Rightarrow> Inl IndexError)"

text \<open>\<^verbatim>\<open>a[:,:-1]\<close>: all but the last column. \<^verbatim>\<open>ny.sum(a)\<close>: the sum of all entries.\<close>

definition drop_last_col :: "ndarray \<Rightarrow> ndarray" where
  "drop_last_col a = tabulate2 (nrows a) (ncols a - 1) (\<lambda>i j. elem a i j)"

definition ny_sum :: "ndarray \<Rightarrow> real" where
  "ny_sum a = sum_list (map sum_list (rows a))"

text \<open>
  \<^verbatim>\<open>ny.concatenate\<close> refuses arrays of different dimensions, so a 1-D first operand
  beside the 2-D column of minus ones is a ValueError. \<^verbatim>\<open>ny.random.rand(r, c)\<close> draws an
  array of shape \<open>(r, c)\<close>; \<open>g i j\<close> is the number drawn for entry \<open>(i, j)\<close>, and a
  negative dimension is a ValueError.
\<close>

definition ny_concatenate_obj :: "array_obj \<Rightarrow> ndarray \<Rightarrow> error + ndarray" where
  "ny_concatenate_obj t b =
     (case t of Arr2 a \<Rightarrow> ny_concatenate a b | Arr1 xs \<Rightarrow> Inl ValueError)"

definition ny_random_rand :: "(nat \<Rightarrow> nat \<Rightarrow> real) \<Rightarrow> int \<Rightarrow> int \<Rightarrow> error + ndarray" where
  "ny_random_rand g r c =
     (if r < 0 \<or> c < 0 then Inl ValueError else Inr (tabulate2 (nat r) (nat c) g))"

text \<open>
  The activation functions. \<open>logistic\<close> is \<^verbatim>\<open>1.0 / (1.0 + ny.exp(-beta * a))\<close>.
  \<open>softmax\<close> is the two lines of the \<^verbatim>\<open>'softmax'\<close> branch of \<^verbatim>\<open>_forward\<close>: the row
  sums of \<^verbatim>\<open>ny.exp(outputs)\<close>, laid out as one row of length \<open>nrows a\<close>, divide the
  transposed exponentials, and the quotient is transposed back. The division broadcasts
  \<open>(c, r)\<close> against \<open>(1, r)\<close>, which always succeeds.
\<close>

definition logistic :: "real \<Rightarrow> ndarray \<Rightarrow> ndarray" where
  "logistic b a = arr_map (\<lambda>x. 1 / (1 + exp (- b * x))) a"

definition normalisers :: "ndarray \<Rightarrow> ndarray" where
  "normalisers a =
     tabulate2 1 (nrows a) (\<lambda>i j. sum_list (map (\<lambda>k. exp (elem a j k)) [0..<ncols a]))"

definition softmax :: "ndarray \<Rightarrow> error + ndarray" where
  "softmax a =
     (case arr_binop (\<lambda>x y. x / y) (ny_transpose (arr_map exp a)) (normalisers a) of
        Inl e \<Rightarrow> Inl e
      | Inr q \<Rightarrow> Inr (ny_transpose q))"

section \<open>The network object\<close>

text \<open>
  An \<^verbatim>\<open>MLP\<close> object and the part of the world its methods touch. The two weight
  matrices are the only arrays that a method changes in place
  (\<^verbatim>\<open>self.weights_layer1 += self.update_w1\<close>), and the validation arrays handed to
  \<^verbatim>\<open>early_stopping\<close> belong to the caller: these arrays live in \<open>heap\<close>, a store
  from references to arrays, and the attributes \<open>weights_layer1\<close> and \<open>weights_layer2\<close>
  hold references. Every other array attribute is only ever rebound to an array that the
  statement itself has just created (an augmented assignment to such a fresh array, as in
  lines 174 to 178, cannot be seen through any other reference), so it is held by value.

  \<open>shuffle_source\<close> is the random source behind \<^verbatim>\<open>ny.random.shuffle\<close>: its \<open>k\<close>-th call
  turns the list it is given into \<open>shuffle_source k\<close> of it; \<open>shuffle_calls\<close> counts the
  calls made so far. \<open>stdout\<close> collects what the \<^verbatim>\<open>print\<close> statements of
  \<^verbatim>\<open>early_stopping\<close> write, as the pair of numbers each line shows.

  Python creates the attributes \<open>eta\<close>, \<open>outtype\<close>, \<open>update_w1\<close>, \<open>update_w2\<close>,
  \<open>hidden\<close> and \<open>outputs\<close> at their first assignment; every public method writes them
  before it reads them, so the constructor below gives them placeholder values.
\<close>

datatype line = Progress int real | Finished int real

record mlp =
  heap :: "nat \<Rightarrow> ndarray"
  shuffle_source :: "nat \<Rightarrow> nat list \<Rightarrow> nat list"
  shuffle_calls :: nat
  stdout :: "line list"
  inputs :: ndarray
  targets :: array_obj
  nodes_in :: nat
  nodes_out :: nat
  data_amount :: nat
  nodes_hidden :: int
  beta :: real
  momentum :: real
  weights_layer1 :: nat
  weights_layer2 :: nat
  eta :: real
  outtype :: string
  update_w1 :: ndarray
  update_w2 :: ndarray
  hidden :: ndarray
  outputs :: ndarray

subsection \<open>\<^verbatim>\<open>_forward\<close> (lines 112 to 138)\<close>

text \<open>
  A method that can raise returns the error or its value, and the state it leaves behind.
  In the last branch the operand of \<^verbatim>\<open>print\<close> mentions the name \<^verbatim>\<open>outtype\<close>, which is
  neither a local of \<^verbatim>\<open>_forward\<close> nor a global of the module (the attribute is
  \<^verbatim>\<open>self.outtype\<close>): evaluating it raises NameError before anything is printed and
  before \<^verbatim>\<open>return outputs\<close> is reached.
\<close>

definition forward :: "ndarray \<Rightarrow> mlp \<Rightarrow> (error + ndarray) \<times> mlp" where
  "forward x s =
     (let ones = neg_ones (nrows x) in
      case ny_dot x (heap s (weights_layer1 s)) of
        Inl e \<Rightarrow> (Inl e, s)
      | Inr h1 \<Rightarrow>
          let s1 = s\<lparr>hidden := h1\<rparr>;
              s2 = s1\<lparr>hidden := logistic (beta s1) (hidden s1)\<rparr>
          in (case ny_concatenate (hidden s2) ones of
                Inl e \<Rightarrow> (Inl e, s2)
              | Inr h2 \<Rightarrow>
                  let s3 = s2\<lparr>hidden := h2\<rparr> in
                  (case ny_dot (hidden s3) (heap s3 (weights_layer2 s3)) of
                     Inl e \<Rightarrow> (Inl e, s3)
                   | Inr out \<Rightarrow>
                       if outtype s3 = ''linear'' then (Inr out, s3)
                       else if outtype s3 = ''logistic'' then (Inr (logistic (beta s3) out), s3)
                       else if outtype s3 = ''softmax''
                       then (case softmax out of Inl e \<Rightarrow> (Inl e, s3) | Inr sm \<Rightarrow> (Inr sm, s3))
                       else (Inl NameError, s3))))"

subsection \<open>\<^verbatim>\<open>_compute_errors\<close> (lines 141 to 161)\<close>

text \<open>
  The method assigns no attribute and changes no array that it did not create, so it
  returns the two deltas or the error. \<^verbatim>\<open>a * (1.0 - a)\<close> multiplies an array with an
  array of its own shape, entry by entry.
\<close>

definition scale_deltao :: "mlp \<Rightarrow> ndarray \<Rightarrow> error + ndarray" where
  "scale_deltao s d =
     (if outtype s = ''linear'' then Inr (arr_map (\<lambda>x. x / real (data_amount s)) d)
      else if outtype s = ''logistic''
      then arr_inplace (\<lambda>x y. x * y) d (arr_map (\<lambda>x. x * (1 - x)) (outputs s))
      else if outtype s = ''softmax'' then Inr (arr_map (\<lambda>x. x / real (data_amount s)) d)
      else Inr d)"

definition compute_errors :: "mlp \<Rightarrow> error + ndarray \<times> ndarray" where
  "compute_errors s =
     (case arr_sub (targets s) (outputs s) of
        Inl e \<Rightarrow> Inl e
      | Inr d \<Rightarrow>
          (case scale_deltao s d of
             Inl e \<Rightarrow> Inl e
           | Inr deltao \<Rightarrow>
               (case ny_dot deltao (ny_transpose (heap s (weights_layer2 s))) of
                  Inl e \<Rightarrow> Inl e
                | Inr back \<Rightarrow>
                    (case arr_inplace (\<lambda>x y. x * y) (arr_map (\<lambda>x. x * (1 - x)) (hidden s)) back of
                       Inl e \<Rightarrow> Inl e
                     | Inr deltah \<Rightarrow> Inr (deltao, deltah)))))"

subsection \<open>\<^verbatim>\<open>_update_weights\<close> (lines 164 to 181)\<close>

text \<open>
  The method in its four steps: lines 174 and 175, lines 177 and 178, line 180, line 181.
  The two transposes of lines 171 and 172 cannot fail and are taken where they are used.
\<close>

definition accumulate_w1 :: "ndarray \<Rightarrow> mlp \<Rightarrow> (error + unit) \<times> mlp" where
  "accumulate_w1 deltah s =
     (let inputs_tr = ny_transpose (inputs s);
          s1 = s\<lparr>update_w1 := arr_map (\<lambda>x. momentum s * x) (update_w1 s)\<rparr>
      in case ny_dot inputs_tr (drop_last_col deltah) of
           Inl e \<Rightarrow> (Inl e, s1)
         | Inr g \<Rightarrow>
             (case arr_inplace (\<lambda>x y. x + y) (update_w1 s1) (arr_map (\<lambda>x. eta s1 * x) g) of
                Inl e \<Rightarrow> (Inl e, s1)
              | Inr u \<Rightarrow> (Inr (), s1\<lparr>update_w1 := u\<rparr>)))"

definition accumulate_w2 :: "ndarray \<Rightarrow> mlp \<Rightarrow> (error + unit) \<times> mlp" where
  "accumulate_w2 deltao s =
     (let hidden_tr = ny_transpose (hidden s);
          s1 = s\<lparr>update_w2 := arr_map (\<lambda>x. momentum s * x) (update_w2 s)\<rparr>
      in case ny_dot hidden_tr deltao of
           Inl e \<Rightarrow> (Inl e, s1)
         | Inr g \<Rightarrow>
             (case arr_inplace (\<lambda>x y. x + y) (update_w2 s1) (arr_map (\<lambda>x. eta s1 * x) g) of
                Inl e \<Rightarrow> (Inl e, s1)
              | Inr u \<Rightarrow> (Inr (), s1\<lparr>update_w2 := u\<rparr>)))"

definition add_update_w1 :: "mlp \<Rightarrow> (error + unit) \<times> mlp" where
  "add_update_w1 s =
     (case arr_inplace (\<lambda>x y. x + y) (heap s (weights_layer1 s)) (update_w1 s) of
        Inl e \<Rightarrow> (Inl e, s)
      | Inr w \<Rightarrow> (Inr (), s\<lparr>heap := (heap s)(weights_layer1 s := w)\<rparr>))"

definition add_update_w2 :: "mlp \<Rightarrow> (error + unit) \<times> mlp" where
  "add_update_w2 s =
     (case arr_inplace (\<lambda>x y. x + y) (heap s (weights_layer2 s)) (update_w2 s) of
        Inl e \<Rightarrow> (Inl e, s)
      | Inr w \<Rightarrow> (Inr (), s\<lparr>heap := (heap s)(weights_layer2 s := w)\<rparr>))"

definition update_weights :: "ndarray \<Rightarrow> ndarray \<Rightarrow> mlp \<Rightarrow> (error + unit) \<times> mlp" where
  "update_weights deltao deltah s =
     (case accumulate_w1 deltah s of
        (Inl e, s1) \<Rightarrow> (Inl e, s1)
      | (Inr u1, s1) \<Rightarrow>
          (case accumulate_w2 deltao s1 of
             (Inl e, s2) \<Rightarrow> (Inl e, s2)
           | (Inr u2, s2) \<Rightarrow>
               (case add_update_w1 s2 of
                  (Inl e, s3) \<Rightarrow> (Inl e, s3)
                | (Inr u3, s3) \<Rightarrow> add_update_w2 s3)))"

subsection \<open>\<^verbatim>\<open>train\<close> (lines 82 to 109)\<close>

text \<open>
  \<open>train_pass\<close> is the pass of one iteration, lines 100 to 104: forward phase, errors,
  weight update. \<open>shuffle_data\<close> is lines 107 to 109; the local list \<^verbatim>\<open>shuffle\<close> is
  shuffled in place, so it is threaded through the loop.
\<close>

definition train_pass :: "mlp \<Rightarrow> (error + unit) \<times> mlp" where
  "train_pass s =
     (case forward (inputs s) s of
        (Inl e, s1) \<Rightarrow> (Inl e, s1)
      | (Inr out, s1) \<Rightarrow>
          let s2 = s1\<lparr>outputs := out\<rparr> in
          (case compute_errors s2 of
             Inl e \<Rightarrow> (Inl e, s2)
           | Inr (deltao, deltah) \<Rightarrow> update_weights deltao deltah s2))"

definition shuffle_data :: "nat list \<Rightarrow> mlp \<Rightarrow> (error + nat list) \<times> mlp" where
  "shuffle_data shuffle s =
     (let shuffle' = shuffle_source s (shuffle_calls s) shuffle;
          s1 = s\<lparr>shuffle_calls := Suc (shuffle_calls s)\<rparr>
      in case take_rows (inputs s1) shuffle' of
           Inl e \<Rightarrow> (Inl e, s1)
         | Inr x \<Rightarrow>
             let s2 = s1\<lparr>inputs := x\<rparr> in
             (case take_rows_obj (targets s2) shuffle' of
                Inl e \<Rightarrow> (Inl e, s2)
              | Inr t \<Rightarrow> (Inr shuffle', s2\<lparr>targets := t\<rparr>)))"

definition train_step :: "nat list \<Rightarrow> mlp \<Rightarrow> (error + nat list) \<times> mlp" where
  "train_step shuffle s =
     (case train_pass s of
        (Inl e, s1) \<Rightarrow> (Inl e, s1)
      | (Inr u, s1) \<Rightarrow> shuffle_data shuffle s1)"

fun train_loop :: "nat \<Rightarrow> nat list \<Rightarrow> mlp \<Rightarrow> (error + unit) \<times> mlp" where
  "train_loop 0 shuffle s = (Inr (), s)"
| "train_loop (Suc n) shuffle s =
     (case train_step shuffle s of
        (Inl e, s1) \<Rightarrow> (Inl e, s1)
      | (Inr shuffle', s1) \<Rightarrow> train_loop n shuffle' s1)"

text \<open>Lines 90 to 96: the assignments of \<^verbatim>\<open>train\<close> before its loop.\<close>

definition train_enter :: "real \<Rightarrow> string \<Rightarrow> mlp \<Rightarrow> mlp" where
  "train_enter eta' outtype' s =
     (let s1 = s\<lparr>eta := eta'\<rparr>;
          s2 = s1\<lparr>outtype := outtype'\<rparr>;
          s3 = s2\<lparr>update_w1 := ny_zeros (shape (heap s2 (weights_layer1 s2)))\<rparr>
      in s3\<lparr>update_w2 := ny_zeros (shape (heap s3 (weights_layer2 s3)))\<rparr>)"

text \<open>\<^verbatim>\<open>range(iterations)\<close> is empty when \<open>iterations\<close> is not positive.\<close>

definition train :: "real \<Rightarrow> int \<Rightarrow> string \<Rightarrow> mlp \<Rightarrow> (error + unit) \<times> mlp" where
  "train eta' iterations outtype' s =
     train_loop (nat iterations) [0..<data_amount s] (train_enter eta' outtype' s)"

subsection \<open>\<^verbatim>\<open>__init__\<close> and \<^verbatim>\<open>_init_weights\<close> (lines 14 to 54)\<close>

text \<open>
  The constructor takes the raw nested lists. \<^verbatim>\<open>inputs[0]\<close> and \<^verbatim>\<open>targets[0]\<close> raise
  IndexError on an empty list. The two weight matrices are new arrays, put at the
  references 0 and 1 of a store that holds nothing else yet; \<open>g1\<close> and \<open>g2\<close> are the
  numbers that the two calls of \<^verbatim>\<open>ny.random.rand\<close> draw. A constructor that raises
  yields no object.
\<close>

definition init_weights :: "(nat \<Rightarrow> nat \<Rightarrow> real) \<Rightarrow> (nat \<Rightarrow> nat \<Rightarrow> real) \<Rightarrow> mlp \<Rightarrow> error + mlp" where
  "init_weights g1 g2 s =
     (case ny_random_rand g1 (int (nodes_in s) + 1) (nodes_hidden s) of
        Inl e \<Rightarrow> Inl e
      | Inr w1 \<Rightarrow>
          let s1 = s\<lparr>heap := (heap s)(0 := w1), weights_layer1 := 0\<rparr> in
          (case ny_random_rand g2 (nodes_hidden s1 + 1) (int (nodes_out s1)) of
             Inl e \<Rightarrow> Inl e
           | Inr w2 \<Rightarrow> Inr (s1\<lparr>heap := (heap s1)(1 := w2), weights_layer2 := 1\<rparr>)))"

definition init ::
  "(nat \<Rightarrow> nat \<Rightarrow> real) \<Rightarrow> (nat \<Rightarrow> nat \<Rightarrow> real) \<Rightarrow> (nat \<Rightarrow> nat list \<Rightarrow> nat list) \<Rightarrow>
   real list list \<Rightarrow> real list list \<Rightarrow> int \<Rightarrow> real \<Rightarrow> real \<Rightarrow> error + mlp" where
  "init g1 g2 src inputs' targets' hidden_nodes beta' momentum' =
     (if inputs' = [] then Inl IndexError
      else if targets' = [] then Inl IndexError
      else
        (case ny_concatenate_obj (ny_array inputs') (neg_ones (length inputs')) of
           Inl e \<Rightarrow> Inl e
         | Inr x \<Rightarrow>
             init_weights g1 g2
               \<lparr>heap = (\<lambda>r. NDArray 0 []), shuffle_source = src, shuffle_calls = 0, stdout = [],
                inputs = x, targets = ny_array targets',
                nodes_in = length (hd inputs'), nodes_out = length (hd targets'),
                data_amount = length inputs', nodes_hidden = hidden_nodes,
                beta = beta', momentum = momentum',
                weights_layer1 = 0, weights_layer2 = 0, eta = 0, outtype = [],
                update_w1 = NDArray 0 [], update_w2 = NDArray 0 [],
                hidden = NDArray 0 [], outputs = NDArray 0 []\<rparr>))"

subsection \<open>\<^verbatim>\<open>early_stopping\<close> (lines 57 to 79)\<close>

text \<open>
  \<open>valid\<close> and \<open>validtargets\<close> are references to the caller's two arrays. Line 65 binds
  the local name \<^verbatim>\<open>valid\<close> to a new array and leaves the caller's array as it is; the
  loop reads the caller's targets through their reference in every round. The \<^verbatim>\<open>while\<close> loop need not end, so it is a partial
  function: \<open>None\<close> is the loop that runs forever. Its result is the pair of the locals
  \<^verbatim>\<open>count\<close> and \<^verbatim>\<open>new_val_err\<close> at the exit; the locals are passed in the order
  \<^verbatim>\<open>old_val_err1, old_val_err2, new_val_err, count\<close> (\<open>count0\<close> before and
  \<open>count1\<close> after the increment of line 71).

  The method ends with a \<^verbatim>\<open>print\<close> and has no \<^verbatim>\<open>return\<close> statement: its value is
  Python's \<^verbatim>\<open>None\<close>, here the \<open>None\<close> of \<open>(int \<times> real) option\<close>.
\<close>

text \<open>
  Lines 77 and 78, the validation error with the current weights, and lines 72 to 78, the
  body of the loop after the increment of \<^verbatim>\<open>count\<close>.
\<close>

definition validation_error :: "ndarray \<Rightarrow> nat \<Rightarrow> mlp \<Rightarrow> (error + real) \<times> mlp" where
  "validation_error valid validtargets s =
     (case forward valid s of
        (Inl e, s1) \<Rightarrow> (Inl e, s1)
      | (Inr validout, s1) \<Rightarrow>
          (case arr_binop (\<lambda>x y. x - y) (heap s1 validtargets) validout of
             Inl e \<Rightarrow> (Inl e, s1)
           | Inr d \<Rightarrow> (Inr (0.5 * ny_sum (arr_map (\<lambda>x. x ^ 2) d)), s1)))"

definition early_round ::
  "ndarray \<Rightarrow> nat \<Rightarrow> real \<Rightarrow> int \<Rightarrow> string \<Rightarrow> int \<Rightarrow> real \<Rightarrow> mlp \<Rightarrow> (error + real) \<times> mlp" where
  "early_round valid validtargets eta' iterations outtype' count1 new_val_err s =
     (let s1 = (if count1 mod 10 = 0
                then s\<lparr>stdout := stdout s @ [Progress count1 new_val_err]\<rparr> else s)
      in case train eta' iterations outtype' s1 of
           (Inl e, s2) \<Rightarrow> (Inl e, s2)
         | (Inr u, s2) \<Rightarrow> validation_error valid validtargets s2)"

partial_function (option) early_loop ::
  "ndarray \<Rightarrow> nat \<Rightarrow> real \<Rightarrow> int \<Rightarrow> string \<Rightarrow> real \<times> real \<times> real \<times> int \<Rightarrow> mlp \<Rightarrow>
   ((error + int \<times> real) \<times> mlp) option" where
  "early_loop valid validtargets eta' iterations outtype' v s =
     (case v of (old_val_err1, old_val_err2, new_val_err, count0) \<Rightarrow>
        if old_val_err1 - new_val_err > 0.001 \<or> old_val_err2 - old_val_err1 > 0.001
        then
          (let count1 = count0 + 1 in
           case early_round valid validtargets eta' iterations outtype' count1 new_val_err s of
             (Inl e, s1) \<Rightarrow> Some (Inl e, s1)
           | (Inr err, s1) \<Rightarrow>
               early_loop valid validtargets eta' iterations outtype'
                 (new_val_err, old_val_err1, err, count1) s1)
        else Some (Inr (count0, new_val_err), s))"

definition early_stopping ::
  "nat \<Rightarrow> nat \<Rightarrow> real \<Rightarrow> int \<Rightarrow> string \<Rightarrow> mlp \<Rightarrow> ((error + (int \<times> real) option) \<times> mlp) option" where
  "early_stopping valid validtargets eta' iterations outtype' s =
     (case ny_concatenate (heap s valid) (neg_ones (nrows (heap s valid))) of
        Inl e \<Rightarrow> Some (Inl e, s)
      | Inr valid' \<Rightarrow>
          (case early_loop valid' validtargets eta' iterations outtype'
                  (100002, 100001, 100000, 0) s of
             None \<Rightarrow> None
           | Some (Inl e, s1) \<Rightarrow> Some (Inl e, s1)
           | Some (Inr (count1, new_val_err), s1) \<Rightarrow>
               Some (Inr None, s1\<lparr>stdout := stdout s1 @ [Finished count1 new_val_err]\<rparr>)))"

subsection \<open>\<^verbatim>\<open>use\<close> (lines 184 to 207)\<close>

text \<open>The method works on locals only: it assigns no attribute and changes no array.\<close>

definition use :: "real list \<Rightarrow> mlp \<Rightarrow> error + ndarray" where
  "use x s =
     (let ones = neg_ones 1 in
      case ny_concatenate_obj (ny_array [x]) ones of
        Inl e \<Rightarrow> Inl e
      | Inr x1 \<Rightarrow>
          (case ny_dot x1 (heap s (weights_layer1 s)) of
             Inl e \<Rightarrow> Inl e
           | Inr h1 \<Rightarrow>
               (case ny_concatenate (logistic (beta s) h1) ones of
                  Inl e \<Rightarrow> Inl e
                | Inr h2 \<Rightarrow>
                    (case ny_dot h2 (heap s (weights_layer2 s)) of
                       Inl e \<Rightarrow> Inl e
                     | Inr out \<Rightarrow> Inr (logistic (beta s) out)))))"

section \<open>A small network for the concrete checks\<close>

text \<open>
  One input feature, one hidden node, one output, two data rows whose targets are 0.
  The random source draws 0 for every weight and reverses the index list at every
  shuffle. \<open>demo_net\<close> is the object the constructor then builds (lemma \<open>init_demo\<close>).
  \<open>demo_valid\<close> is the same world after the caller has made two more arrays, a
  validation input at reference 2 and its target at reference 3.
\<close>

definition zero_rand :: "nat \<Rightarrow> nat \<Rightarrow> real" where
  "zero_rand i j = 0"

definition rev_source :: "nat \<Rightarrow> nat list \<Rightarrow> nat list" where
  "rev_source k xs = rev xs"

definition demo_net :: mlp where
  "demo_net =
     \<lparr>heap = (\<lambda>r. NDArray 0 [])(0 := NDArray 1 [[0], [0]], 1 := NDArray 1 [[0], [0]]),
      shuffle_source = rev_source, shuffle_calls = 0, stdout = [],
      inputs = NDArray 2 [[0, - 1], [1, - 1]], targets = Arr2 (NDArray 1 [[0], [0]]),
      nodes_in = 1, nodes_out = 1, data_amount = 2, nodes_hidden = 1,
      beta = 1, momentum = 9 / 10,
      weights_layer1 = 0, weights_layer2 = 1, eta = 0, outtype = [],
      update_w1 = NDArray 0 [], update_w2 = NDArray 0 [],
      hidden = NDArray 0 [], outputs = NDArray 0 []\<rparr>"

definition demo_valid :: mlp where
  "demo_valid = demo_net\<lparr>heap := (heap demo_net)(2 := NDArray 1 [[1]], 3 := NDArray 1 [[0]])\<rparr>"

text \<open>
  The same network at points inside a call of \<^verbatim>\<open>train\<close>: \<open>demo_wide\<close> with targets
  one column wider than the output layer, at the start of the loop; \<open>demo_logistic\<close>
  after a forward phase, with targets 0 and 1; \<open>demo_update\<close> with accumulators left by
  an earlier call; \<open>demo_fresh\<close> and \<open>demo_labelled\<close> after lines 90 to 96 of the next
  call.
\<close>

definition demo_wide :: mlp where
  "demo_wide = train_enter (1 / 4) ''linear'' (demo_net\<lparr>targets := Arr2 (NDArray 2 [[0, 0], [0, 0]])\<rparr>)"

definition demo_logistic :: mlp where
  "demo_logistic =
     demo_net\<lparr>outtype := ''logistic'', targets := Arr2 (NDArray 1 [[0], [1]]),
               hidden := NDArray 2 [[1 / 2, - 1], [1 / 2, - 1]],
               outputs := NDArray 1 [[1 / 2], [1 / 4]]\<rparr>"

definition demo_update :: mlp where
  "demo_update =
     demo_net\<lparr>eta := 1 / 4, update_w1 := NDArray 1 [[1], [0]], update_w2 := NDArray 1 [[0], [1]],
               hidden := NDArray 2 [[1 / 2, - 1], [1 / 2, - 1]]\<rparr>"

definition demo_fresh :: mlp where
  "demo_fresh = train_enter (1 / 4) ''logistic'' demo_update"

definition demo_labelled :: mlp where
  "demo_labelled = train_enter (1 / 4) ''logistic'' demo_logistic"

section \<open>Shapes and entries of the array operations\<close>

lemma nrows_NDArray [simp]: "nrows (NDArray c xs) = length xs"
  by (simp add: nrows_def)

lemma nrows_tabulate2 [simp]: "nrows (tabulate2 r c f) = r"
  by (simp add: nrows_def tabulate2_def)

lemma ncols_tabulate2 [simp]: "ncols (tabulate2 r c f) = c"
  by (simp add: tabulate2_def)

lemma shape_tabulate2 [simp]: "shape (tabulate2 r c f) = (r, c)"
  by (simp add: shape_def)

lemma elem_tabulate2 [simp]: "i < r \<Longrightarrow> j < c \<Longrightarrow> elem (tabulate2 r c f) i j = f i j"
  by (simp add: elem_def tabulate2_def)

lemma belem_in_range: "i < nrows a \<Longrightarrow> j < ncols a \<Longrightarrow> belem a i j = elem a i j"
  by (auto simp: belem_def)

lemma nrows_arr_map [simp]: "nrows (arr_map f a) = nrows a"
  and ncols_arr_map [simp]: "ncols (arr_map f a) = ncols a"
  by (simp_all add: arr_map_def)

lemma nrows_logistic [simp]: "nrows (logistic b a) = nrows a"
  and ncols_logistic [simp]: "ncols (logistic b a) = ncols a"
  by (simp_all add: logistic_def)

lemma nrows_ny_transpose [simp]: "nrows (ny_transpose a) = ncols a"
  and ncols_ny_transpose [simp]: "ncols (ny_transpose a) = nrows a"
  by (simp_all add: ny_transpose_def)

lemma nrows_neg_ones [simp]: "nrows (neg_ones r) = r"
  and ncols_neg_ones [simp]: "ncols (neg_ones r) = 1"
  by (simp_all add: neg_ones_def)

lemma shape_ny_zeros [simp]: "shape (ny_zeros sh) = sh"
  by (simp add: ny_zeros_def)

lemma nrows_drop_last_col [simp]: "nrows (drop_last_col a) = nrows a"
  and ncols_drop_last_col [simp]: "ncols (drop_last_col a) = ncols a - 1"
  by (simp_all add: drop_last_col_def)

lemma shape_arr_map [simp]: "shape (arr_map f a) = shape a"
  by (simp add: shape_def)

lemma nrows_shape: "nrows a = fst (shape a)" and ncols_shape: "ncols a = snd (shape a)"
  by (simp_all add: shape_def)

lemma ny_dot_Inr:
  assumes "ny_dot a b = Inr c"
  shows "ncols a = nrows b" and "nrows c = nrows a" and "ncols c = ncols b"
  using assms by (auto simp: ny_dot_def split: if_splits)

lemma ny_concatenate_Inr:
  assumes "ny_concatenate a b = Inr c"
  shows "nrows a = nrows b" and "nrows c = nrows a" and "ncols c = ncols a + ncols b"
  using assms by (auto simp: ny_concatenate_def split: if_splits)

lemma arr_binop_Inr:
  assumes "arr_binop f a b = Inr c"
  shows "broadcast_shape (shape a) (shape b) = Some (shape c)"
  using assms by (auto simp: arr_binop_def split: option.splits)

lemma arr_inplace_Inr:
  assumes "arr_inplace f a b = Inr c"
  shows "shape c = shape a" and "broadcast_shape (shape a) (shape b) = Some (shape a)"
  using assms by (auto simp: arr_inplace_def split: option.splits if_splits)

lemma arr_inplace_same_shape:
  "shape b = shape a \<Longrightarrow>
   arr_inplace f a b = Inr (tabulate2 (nrows a) (ncols a) (\<lambda>i j. f (elem a i j) (belem b i j)))"
  by (simp add: arr_inplace_def broadcast_shape_def shape_def)

lemma softmax_Inr:
  assumes "softmax a = Inr c"
  shows "nrows c = nrows a" and "ncols c = ncols a"
proof -
  from assms obtain q where q: "arr_binop (\<lambda>x y. x / y) (ny_transpose (arr_map exp a)) (normalisers a) = Inr q"
    and c: "c = ny_transpose q"
    by (auto simp: softmax_def split: sum.splits)
  from arr_binop_Inr[OF q] have "shape q = (ncols a, nrows a)"
    by (auto simp: broadcast_shape_def shape_def normalisers_def split: if_splits)
  then show "nrows c = nrows a" and "ncols c = ncols a"
    using c by (simp_all add: shape_def)
qed

lemma elem_arr_map: "i < nrows a \<Longrightarrow> j < ncols a \<Longrightarrow> elem (arr_map f a) i j = f (elem a i j)"
  by (simp add: arr_map_def)

lemma belem_arr_map:
  assumes "nrows a = 1 \<or> i < nrows a" and "ncols a = 1 \<or> j < ncols a"
  shows "belem (arr_map f a) i j = f (belem a i j)"
  using assms by (auto simp: belem_def elem_arr_map)

lemma elem_arr_binop:
  assumes "arr_binop f a b = Inr c" and "i < nrows c" and "j < ncols c"
  shows "elem c i j = f (belem a i j) (belem b i j)"
  using assms by (auto simp: arr_binop_def split: option.splits)

lemma elem_arr_inplace:
  assumes "arr_inplace f a b = Inr c" and "i < nrows a" and "j < ncols a"
  shows "elem c i j = f (elem a i j) (belem b i j)"
  using assms by (auto simp: arr_inplace_def shape_def split: option.splits if_splits)

lemma broadcast_shape_index:
  assumes "broadcast_shape (shape a) (shape b) = Some (shape c)" and "i < nrows c" and "j < ncols c"
  shows "nrows a = 1 \<or> i < nrows a" and "ncols a = 1 \<or> j < ncols a"
    and "nrows b = 1 \<or> i < nrows b" and "ncols b = 1 \<or> j < ncols b"
  using assms by (auto simp: broadcast_shape_def shape_def split: if_splits)

lemma elem_ny_transpose: "i < ncols a \<Longrightarrow> j < nrows a \<Longrightarrow> elem (ny_transpose a) i j = elem a j i"
  by (simp add: ny_transpose_def)

lemma elem_drop_last_col:
  "i < nrows a \<Longrightarrow> j < ncols a - 1 \<Longrightarrow> elem (drop_last_col a) i j = elem a i j"
  by (simp add: drop_last_col_def)

lemma elem_ny_dot_transpose:
  assumes "ny_dot (ny_transpose a) b = Inr g" and "i < nrows g" and "j < ncols g"
  shows "elem g i j = (\<Sum>k\<leftarrow>[0..<nrows a]. elem a k i * elem b k j)"
proof -
  from assms(1) have g: "g = tabulate2 (ncols a) (ncols b)
      (\<lambda>i j. \<Sum>k\<leftarrow>[0..<nrows a]. elem (ny_transpose a) i k * elem b k j)"
    by (auto simp: ny_dot_def split: if_splits)
  have i: "i < ncols a" and j: "j < ncols b"
    using assms(2,3) ny_dot_Inr[OF assms(1)] by simp_all
  have "elem g i j = (\<Sum>k\<leftarrow>[0..<nrows a]. elem (ny_transpose a) i k * elem b k j)"
    unfolding g using i j by simp
  also have "\<dots> = (\<Sum>k\<leftarrow>[0..<nrows a]. elem a k i * elem b k j)"
    by (rule arg_cong[where f = sum_list], rule map_cong) (simp_all add: elem_ny_transpose i)
  finally show ?thesis .
qed

lemma elem_ny_zeros: "i < fst sh \<Longrightarrow> j < snd sh \<Longrightarrow> elem (ny_zeros sh) i j = 0"
  by (simp add: ny_zeros_def)

lemma take_rows_Inr:
  assumes "take_rows a idx = Inr b"
  shows "rows b = map (\<lambda>i. rows a ! i) idx" and "ncols b = ncols a"
    and "\<forall>i\<in>set idx. i < nrows a"
  using assms by (auto simp: take_rows_def list_all_iff split: if_splits)

lemma zip_rows_nth:
  assumes "length xs \<le> length ys"
  shows "map (\<lambda>i. (xs ! i, ys ! i)) [0..<length xs] = zip xs ys"
  using assms by (intro nth_equalityI) auto

text \<open>The definitions that a concrete run unfolds.\<close>

lemmas array_eval =
  ny_dot_def ny_concatenate_def ny_concatenate_obj_def ny_array_def ny_zeros_def neg_ones_def
  ny_transpose_def arr_map_def arr_binop_def arr_inplace_def arr_sub_def broadcast_shape_def
  belem_def take_rows_def take_rows_obj_def drop_last_col_def ny_sum_def logistic_def
  ny_random_rand_def tabulate2_def elem_def nrows_def shape_def Let_def eval_nat_numeral

section \<open>Network construction\<close>

lemma init_demo:
  "init zero_rand zero_rand rev_source [[0], [1]] [[0], [0]] 1 1 (9 / 10) = Inr demo_net"
  by (simp add: init_def init_weights_def demo_net_def zero_rand_def array_eval)

lemma init_ragged:
  assumes "inputs' \<noteq> []" and "targets' \<noteq> []"
    and "\<not> list_all (\<lambda>r. length r = length (hd inputs')) inputs'"
  shows "init g1 g2 src inputs' targets' h b m = Inl ValueError"
  using assms by (simp add: init_def ny_array_def ny_concatenate_obj_def)

lemma init_negative_hidden:
  assumes "inputs' \<noteq> []" and "targets' \<noteq> []" and "h < 0"
  shows "init g1 g2 src inputs' targets' h b m = Inl ValueError"
  using assms
  by (simp add: init_def ny_array_def ny_concatenate_obj_def ny_concatenate_def neg_ones_def
      init_weights_def ny_random_rand_def)

lemma init_builds:
  assumes "inputs' \<noteq> []" and "targets' \<noteq> []"
    and "list_all (\<lambda>r. length r = length (hd inputs')) inputs'" and "0 \<le> h"
  shows "\<exists>s. init g1 g2 src inputs' targets' h b m = Inr s \<and> targets s = ny_array targets'
           \<and> data_amount s = length inputs'"
  using assms
  by (simp add: init_def ny_array_def ny_concatenate_obj_def ny_concatenate_def neg_ones_def
      init_weights_def ny_random_rand_def)

lemma init_data_amount:
  assumes "init g1 g2 src inputs' targets' h b m = Inr s"
  shows "data_amount s = nrows (inputs s)" and "0 < data_amount s"
    and "weights_layer1 s \<noteq> weights_layer2 s"
  using assms
  by (auto simp: init_def init_weights_def ny_concatenate_obj_def ny_concatenate_def
      ny_random_rand_def ny_array_def Let_def split: if_splits sum.splits array_obj.splits)

text \<open>
  Claim C2 as the specification has it: construction fails with a ShapeError when the row
  counts of inputs and targets disagree or a row differs in width from row 0. It does not
  hold: two input rows and one target row build a network, whose data set then has two
  input rows and one target row.
\<close>

theorem init_accepts_disagreeing_row_counts:
  "(case init zero_rand zero_rand rev_source [[0, 0], [0, 1]] [[0]] 2 1 (9 / 10) of
      Inl e \<Rightarrow> False
    | Inr s \<Rightarrow> nrows (inputs s) = 2 \<and> targets s = Arr2 (NDArray 1 [[0]]))"
  by (simp add: init_def init_weights_def zero_rand_def array_eval)

text \<open>
  Claim C2, amended: for non-empty inputs and targets the constructor never looks at the
  shape of the targets. It fails, with numpy's ValueError, exactly when some input row
  differs in width from input row 0 (the bias column cannot be concatenated to a 1-D
  array) or the number of hidden nodes is negative; in every other case it builds a network
  that holds the targets as \<^verbatim>\<open>ny.array\<close> made them.
\<close>

theorem init_fails_only_on_ragged_inputs:
  "inputs' \<noteq> [] \<Longrightarrow> targets' \<noteq> [] \<Longrightarrow>
   (if list_all (\<lambda>r. length r = length (hd inputs')) inputs' \<and> 0 \<le> h
    then \<exists>s. init g1 g2 src inputs' targets' h b m = Inr s \<and> targets s = ny_array targets'
              \<and> data_amount s = length inputs'
    else init g1 g2 src inputs' targets' h b m = Inl ValueError)"
  using init_ragged init_negative_hidden init_builds by (cases "h < 0") auto

theorem init_fails_only_on_ragged_inputs_witness:
  "init zero_rand zero_rand rev_source [[0, 0], [1]] [[0], [1]] 2 1 (9 / 10) = Inl ValueError"
  using init_fails_only_on_ragged_inputs
    [of "[[0, 0], [1]]" "[[0], [1]]" 2 zero_rand zero_rand rev_source 1 "9 / 10"]
  by simp

section \<open>What each step changes\<close>

lemma forward_unfold:
  "forward x s =
     (case ny_dot x (heap s (weights_layer1 s)) of
        Inl e \<Rightarrow> (Inl e, s)
      | Inr h1 \<Rightarrow>
          (case ny_concatenate (logistic (beta s) h1) (neg_ones (nrows x)) of
             Inl e \<Rightarrow> (Inl e, s\<lparr>hidden := logistic (beta s) h1\<rparr>)
           | Inr h2 \<Rightarrow>
               (case ny_dot h2 (heap s (weights_layer2 s)) of
                  Inl e \<Rightarrow> (Inl e, s\<lparr>hidden := h2\<rparr>)
                | Inr out \<Rightarrow>
                    (if outtype s = ''linear'' then Inr out
                     else if outtype s = ''logistic'' then Inr (logistic (beta s) out)
                     else if outtype s = ''softmax'' then softmax out
                     else Inl NameError, s\<lparr>hidden := h2\<rparr>))))"
  unfolding forward_def Let_def
  by (simp split: sum.split)

lemma forward_state: "snd (forward x s) = s\<lparr>hidden := hidden (snd (forward x s))\<rparr>"
  unfolding forward_unfold by (simp split: sum.split)

lemma forward_keeps [simp]:
  "heap (snd (forward x s)) = heap s"
  "weights_layer1 (snd (forward x s)) = weights_layer1 s"
  "weights_layer2 (snd (forward x s)) = weights_layer2 s"
  "update_w1 (snd (forward x s)) = update_w1 s"
  "update_w2 (snd (forward x s)) = update_w2 s"
  "inputs (snd (forward x s)) = inputs s"
  "targets (snd (forward x s)) = targets s"
  "outtype (snd (forward x s)) = outtype s"
  "beta (snd (forward x s)) = beta s"
  "eta (snd (forward x s)) = eta s"
  "momentum (snd (forward x s)) = momentum s"
  "data_amount (snd (forward x s)) = data_amount s"
  "outputs (snd (forward x s)) = outputs s"
  "shuffle_source (snd (forward x s)) = shuffle_source s"
  "shuffle_calls (snd (forward x s)) = shuffle_calls s"
  "stdout (snd (forward x s)) = stdout s"
  by (subst forward_state, simp)+

lemma forward_ignores [simp]:
  "fst (forward x (s\<lparr>hidden := h\<rparr>)) = fst (forward x s)"
  "fst (forward x (s\<lparr>stdout := out\<rparr>)) = fst (forward x s)"
  unfolding forward_unfold by (simp_all split: sum.split)

lemma forward_shapes:
  assumes "fst (forward x s) = Inr out"
  shows "ncols x = nrows (heap s (weights_layer1 s))"
    and "nrows (heap s (weights_layer2 s)) = Suc (ncols (heap s (weights_layer1 s)))"
    and "nrows (hidden (snd (forward x s))) = nrows x"
    and "ncols (hidden (snd (forward x s))) = Suc (ncols (heap s (weights_layer1 s)))"
    and "nrows out = nrows x"
    and "ncols out = ncols (heap s (weights_layer2 s))"
proof -
  from assms obtain h1 where d1: "ny_dot x (heap s (weights_layer1 s)) = Inr h1"
    unfolding forward_unfold by (cases "ny_dot x (heap s (weights_layer1 s))") auto
  from assms d1 obtain h2 where c1: "ny_concatenate (logistic (beta s) h1) (neg_ones (nrows x)) = Inr h2"
    unfolding forward_unfold by (cases "ny_concatenate (logistic (beta s) h1) (neg_ones (nrows x))") auto
  from assms d1 c1 obtain out0 where d2: "ny_dot h2 (heap s (weights_layer2 s)) = Inr out0"
    unfolding forward_unfold by (cases "ny_dot h2 (heap s (weights_layer2 s))") auto
  have hid: "hidden (snd (forward x s)) = h2"
    unfolding forward_unfold using d1 c1 d2 by simp
  have act: "out = out0 \<or> out = logistic (beta s) out0 \<or> softmax out0 = Inr out"
    using assms d1 c1 d2 unfolding forward_unfold by (auto split: if_splits)
  have so: "nrows out = nrows out0 \<and> ncols out = ncols out0"
    using act softmax_Inr by auto
  note f = ny_dot_Inr[OF d1] ny_concatenate_Inr[OF c1] ny_dot_Inr[OF d2]
  show "ncols x = nrows (heap s (weights_layer1 s))" using f by simp
  show "nrows (heap s (weights_layer2 s)) = Suc (ncols (heap s (weights_layer1 s)))" using f by simp
  show "nrows (hidden (snd (forward x s))) = nrows x" using f hid by simp
  show "ncols (hidden (snd (forward x s))) = Suc (ncols (heap s (weights_layer1 s)))" using f hid by simp
  show "nrows out = nrows x" using f so by simp
  show "ncols out = ncols (heap s (weights_layer2 s))" using f so by simp
qed

lemma accumulate_w1_state:
  "snd (accumulate_w1 deltah s) = s\<lparr>update_w1 := update_w1 (snd (accumulate_w1 deltah s))\<rparr>"
  unfolding accumulate_w1_def Let_def by (simp split: sum.split)

lemma accumulate_w1_shape:
  "shape (update_w1 (snd (accumulate_w1 deltah s))) = shape (update_w1 s)"
  unfolding accumulate_w1_def Let_def by (simp split: sum.split add: arr_inplace_Inr(1))

lemma accumulate_w1_keeps [simp]:
  "heap (snd (accumulate_w1 d s)) = heap s"
  "weights_layer1 (snd (accumulate_w1 d s)) = weights_layer1 s"
  "weights_layer2 (snd (accumulate_w1 d s)) = weights_layer2 s"
  "update_w2 (snd (accumulate_w1 d s)) = update_w2 s"
  "inputs (snd (accumulate_w1 d s)) = inputs s"
  "targets (snd (accumulate_w1 d s)) = targets s"
  "hidden (snd (accumulate_w1 d s)) = hidden s"
  "eta (snd (accumulate_w1 d s)) = eta s"
  "momentum (snd (accumulate_w1 d s)) = momentum s"
  "outtype (snd (accumulate_w1 d s)) = outtype s"
  "data_amount (snd (accumulate_w1 d s)) = data_amount s"
  "shuffle_source (snd (accumulate_w1 d s)) = shuffle_source s"
  "shuffle_calls (snd (accumulate_w1 d s)) = shuffle_calls s"
  "stdout (snd (accumulate_w1 d s)) = stdout s"
  "beta (snd (accumulate_w1 d s)) = beta s"
  by (subst accumulate_w1_state, simp)+

lemma accumulate_w2_state:
  "snd (accumulate_w2 deltao s) = s\<lparr>update_w2 := update_w2 (snd (accumulate_w2 deltao s))\<rparr>"
  unfolding accumulate_w2_def Let_def by (simp split: sum.split)

lemma accumulate_w2_shape:
  "shape (update_w2 (snd (accumulate_w2 deltao s))) = shape (update_w2 s)"
  unfolding accumulate_w2_def Let_def by (simp split: sum.split add: arr_inplace_Inr(1))

lemma accumulate_w2_keeps [simp]:
  "heap (snd (accumulate_w2 d s)) = heap s"
  "weights_layer1 (snd (accumulate_w2 d s)) = weights_layer1 s"
  "weights_layer2 (snd (accumulate_w2 d s)) = weights_layer2 s"
  "update_w1 (snd (accumulate_w2 d s)) = update_w1 s"
  "inputs (snd (accumulate_w2 d s)) = inputs s"
  "targets (snd (accumulate_w2 d s)) = targets s"
  "hidden (snd (accumulate_w2 d s)) = hidden s"
  "eta (snd (accumulate_w2 d s)) = eta s"
  "momentum (snd (accumulate_w2 d s)) = momentum s"
  "outtype (snd (accumulate_w2 d s)) = outtype s"
  "data_amount (snd (accumulate_w2 d s)) = data_amount s"
  "shuffle_source (snd (accumulate_w2 d s)) = shuffle_source s"
  "shuffle_calls (snd (accumulate_w2 d s)) = shuffle_calls s"
  "stdout (snd (accumulate_w2 d s)) = stdout s"
  "beta (snd (accumulate_w2 d s)) = beta s"
  by (subst accumulate_w2_state, simp)+

lemma add_update_w1_fits:
  assumes "shape (update_w1 s) = shape (heap s (weights_layer1 s))"
  shows "fst (add_update_w1 s) = Inr ()"
  unfolding add_update_w1_def by (simp add: arr_inplace_same_shape[OF assms])

lemma add_update_w2_fits:
  assumes "shape (update_w2 s) = shape (heap s (weights_layer2 s))"
  shows "fst (add_update_w2 s) = Inr ()"
  unfolding add_update_w2_def by (simp add: arr_inplace_same_shape[OF assms])

lemma add_update_w1_state:
  "snd (add_update_w1 s) = s\<lparr>heap := heap (snd (add_update_w1 s))\<rparr>"
  unfolding add_update_w1_def by (simp split: sum.split)

lemma add_update_w2_state:
  "snd (add_update_w2 s) = s\<lparr>heap := heap (snd (add_update_w2 s))\<rparr>"
  unfolding add_update_w2_def by (simp split: sum.split)

lemma add_update_w1_heap:
  "heap (snd (add_update_w1 s)) r =
     (if r = weights_layer1 s \<and> fst (add_update_w1 s) = Inr ()
      then tabulate2 (nrows (heap s r)) (ncols (heap s r))
             (\<lambda>i j. elem (heap s r) i j + belem (update_w1 s) i j)
      else heap s r)"
  unfolding add_update_w1_def arr_inplace_def
  by (simp split: sum.split option.split add: shape_def)

lemma add_update_w2_heap:
  "heap (snd (add_update_w2 s)) r =
     (if r = weights_layer2 s \<and> fst (add_update_w2 s) = Inr ()
      then tabulate2 (nrows (heap s r)) (ncols (heap s r))
             (\<lambda>i j. elem (heap s r) i j + belem (update_w2 s) i j)
      else heap s r)"
  unfolding add_update_w2_def arr_inplace_def
  by (simp split: sum.split option.split add: shape_def)

lemma add_update_w1_keeps [simp]:
  "weights_layer1 (snd (add_update_w1 s)) = weights_layer1 s"
  "weights_layer2 (snd (add_update_w1 s)) = weights_layer2 s"
  "update_w1 (snd (add_update_w1 s)) = update_w1 s"
  "update_w2 (snd (add_update_w1 s)) = update_w2 s"
  "inputs (snd (add_update_w1 s)) = inputs s"
  "targets (snd (add_update_w1 s)) = targets s"
  "hidden (snd (add_update_w1 s)) = hidden s"
  "outtype (snd (add_update_w1 s)) = outtype s"
  "data_amount (snd (add_update_w1 s)) = data_amount s"
  "shuffle_source (snd (add_update_w1 s)) = shuffle_source s"
  "shuffle_calls (snd (add_update_w1 s)) = shuffle_calls s"
  "stdout (snd (add_update_w1 s)) = stdout s"
  "beta (snd (add_update_w1 s)) = beta s"
  by (subst add_update_w1_state, simp)+

lemma add_update_w2_keeps [simp]:
  "weights_layer1 (snd (add_update_w2 s)) = weights_layer1 s"
  "weights_layer2 (snd (add_update_w2 s)) = weights_layer2 s"
  "update_w1 (snd (add_update_w2 s)) = update_w1 s"
  "update_w2 (snd (add_update_w2 s)) = update_w2 s"
  "inputs (snd (add_update_w2 s)) = inputs s"
  "targets (snd (add_update_w2 s)) = targets s"
  "hidden (snd (add_update_w2 s)) = hidden s"
  "outtype (snd (add_update_w2 s)) = outtype s"
  "data_amount (snd (add_update_w2 s)) = data_amount s"
  "shuffle_source (snd (add_update_w2 s)) = shuffle_source s"
  "shuffle_calls (snd (add_update_w2 s)) = shuffle_calls s"
  "stdout (snd (add_update_w2 s)) = stdout s"
  "beta (snd (add_update_w2 s)) = beta s"
  by (subst add_update_w2_state, simp)+

lemma add_update_w1_heap_shape: "shape (heap (snd (add_update_w1 s)) r) = shape (heap s r)"
  by (simp add: add_update_w1_heap shape_def)

lemma add_update_w2_heap_shape: "shape (heap (snd (add_update_w2 s)) r) = shape (heap s r)"
  by (simp add: add_update_w2_heap shape_def)

lemma update_weights_unfold:
  "update_weights deltao deltah s =
     (let r1 = accumulate_w1 deltah s in
      case fst r1 of
        Inl e \<Rightarrow> (Inl e, snd r1)
      | Inr u1 \<Rightarrow>
          (let r2 = accumulate_w2 deltao (snd r1) in
           case fst r2 of
             Inl e \<Rightarrow> (Inl e, snd r2)
           | Inr u2 \<Rightarrow>
               (let r3 = add_update_w1 (snd r2) in
                case fst r3 of
                  Inl e \<Rightarrow> (Inl e, snd r3)
                | Inr u3 \<Rightarrow> add_update_w2 (snd r3))))"
  by (simp add: update_weights_def Let_def split: prod.split sum.split)

lemma update_weights_keeps [simp]:
  "weights_layer1 (snd (update_weights deltao deltah s)) = weights_layer1 s"
  "weights_layer2 (snd (update_weights deltao deltah s)) = weights_layer2 s"
  "inputs (snd (update_weights deltao deltah s)) = inputs s"
  "targets (snd (update_weights deltao deltah s)) = targets s"
  "hidden (snd (update_weights deltao deltah s)) = hidden s"
  "outtype (snd (update_weights deltao deltah s)) = outtype s"
  "data_amount (snd (update_weights deltao deltah s)) = data_amount s"
  "shuffle_source (snd (update_weights deltao deltah s)) = shuffle_source s"
  "shuffle_calls (snd (update_weights deltao deltah s)) = shuffle_calls s"
  "stdout (snd (update_weights deltao deltah s)) = stdout s"
  "beta (snd (update_weights deltao deltah s)) = beta s"
  unfolding update_weights_unfold Let_def by (simp_all split: sum.split)

lemma update_weights_shapes:
  "shape (heap (snd (update_weights deltao deltah s)) r) = shape (heap s r)"
  "shape (update_w1 (snd (update_weights deltao deltah s))) = shape (update_w1 s)"
  "shape (update_w2 (snd (update_weights deltao deltah s))) = shape (update_w2 s)"
  unfolding update_weights_unfold Let_def
  by (simp_all split: sum.split
      add: add_update_w1_heap_shape add_update_w2_heap_shape accumulate_w1_shape accumulate_w2_shape)

lemma update_weights_other_arrays:
  assumes "r \<noteq> weights_layer1 s" and "r \<noteq> weights_layer2 s"
  shows "heap (snd (update_weights deltao deltah s)) r = heap s r"
  using assms unfolding update_weights_unfold Let_def
  by (simp split: sum.split add: add_update_w1_heap add_update_w2_heap)

lemma train_pass_unfold:
  "train_pass s =
     (let r1 = forward (inputs s) s in
      case fst r1 of
        Inl e \<Rightarrow> (Inl e, snd r1)
      | Inr out \<Rightarrow>
          (case compute_errors ((snd r1)\<lparr>outputs := out\<rparr>) of
             Inl e \<Rightarrow> (Inl e, (snd r1)\<lparr>outputs := out\<rparr>)
           | Inr d \<Rightarrow> update_weights (fst d) (snd d) ((snd r1)\<lparr>outputs := out\<rparr>)))"
  by (simp add: train_pass_def Let_def split: prod.split sum.split)

lemma train_pass_keeps [simp]:
  "weights_layer1 (snd (train_pass s)) = weights_layer1 s"
  "weights_layer2 (snd (train_pass s)) = weights_layer2 s"
  "inputs (snd (train_pass s)) = inputs s"
  "targets (snd (train_pass s)) = targets s"
  "outtype (snd (train_pass s)) = outtype s"
  "data_amount (snd (train_pass s)) = data_amount s"
  "shuffle_source (snd (train_pass s)) = shuffle_source s"
  "shuffle_calls (snd (train_pass s)) = shuffle_calls s"
  "stdout (snd (train_pass s)) = stdout s"
  "beta (snd (train_pass s)) = beta s"
  unfolding train_pass_unfold Let_def by (simp_all split: sum.split)

lemma train_pass_shapes:
  "shape (heap (snd (train_pass s)) r) = shape (heap s r)"
  "shape (update_w1 (snd (train_pass s))) = shape (update_w1 s)"
  "shape (update_w2 (snd (train_pass s))) = shape (update_w2 s)"
  unfolding train_pass_unfold Let_def
  by (simp_all split: sum.split add: update_weights_shapes)

lemma train_pass_other_arrays:
  assumes "r \<noteq> weights_layer1 s" and "r \<noteq> weights_layer2 s"
  shows "heap (snd (train_pass s)) r = heap s r"
  using assms unfolding train_pass_unfold Let_def
  by (simp split: sum.split add: update_weights_other_arrays)

lemma train_pass_success:
  assumes "train_pass s = (Inr (), s')"
  obtains out deltao deltah where "fst (forward (inputs s) s) = Inr out"
    and "compute_errors ((snd (forward (inputs s) s))\<lparr>outputs := out\<rparr>) = Inr (deltao, deltah)"
    and "update_weights deltao deltah ((snd (forward (inputs s) s))\<lparr>outputs := out\<rparr>) = (Inr (), s')"
  using assms unfolding train_pass_unfold Let_def
  by (auto split: sum.splits)

lemma train_enter_state:
  "train_enter eta' outtype' s =
     s\<lparr>eta := eta', outtype := outtype',
       update_w1 := ny_zeros (shape (heap s (weights_layer1 s))),
       update_w2 := ny_zeros (shape (heap s (weights_layer2 s)))\<rparr>"
  by (simp add: train_enter_def Let_def)

lemma train_enter_fits:
  "shape (update_w1 (train_enter eta' outtype' s)) =
     shape (heap (train_enter eta' outtype' s) (weights_layer1 (train_enter eta' outtype' s)))"
  "shape (update_w2 (train_enter eta' outtype' s)) =
     shape (heap (train_enter eta' outtype' s) (weights_layer2 (train_enter eta' outtype' s)))"
  by (simp_all add: train_enter_state)

lemma shuffle_data_state:
  "snd (shuffle_data sh s) =
     s\<lparr>shuffle_calls := Suc (shuffle_calls s),
       inputs := inputs (snd (shuffle_data sh s)), targets := targets (snd (shuffle_data sh s))\<rparr>"
  unfolding shuffle_data_def Let_def by (simp split: sum.split)

lemma shuffle_data_keeps [simp]:
  "heap (snd (shuffle_data sh s)) = heap s"
  "weights_layer1 (snd (shuffle_data sh s)) = weights_layer1 s"
  "weights_layer2 (snd (shuffle_data sh s)) = weights_layer2 s"
  "update_w1 (snd (shuffle_data sh s)) = update_w1 s"
  "update_w2 (snd (shuffle_data sh s)) = update_w2 s"
  "outtype (snd (shuffle_data sh s)) = outtype s"
  "data_amount (snd (shuffle_data sh s)) = data_amount s"
  "shuffle_source (snd (shuffle_data sh s)) = shuffle_source s"
  "shuffle_calls (snd (shuffle_data sh s)) = Suc (shuffle_calls s)"
  "stdout (snd (shuffle_data sh s)) = stdout s"
  "beta (snd (shuffle_data sh s)) = beta s"
  by (subst shuffle_data_state, simp)+

lemma shuffle_data_success:
  assumes "shuffle_data sh s = (Inr sh', s')"
  obtains t t' where "targets s = Arr2 t" and "targets s' = Arr2 t'"
    and "sh' = shuffle_source s (shuffle_calls s) sh"
    and "take_rows (inputs s) sh' = Inr (inputs s')"
    and "take_rows t sh' = Inr t'"
  using assms unfolding shuffle_data_def Let_def take_rows_obj_def
  by (auto split: sum.splits array_obj.splits)

lemma train_step_unfold:
  "train_step sh s =
     (case fst (train_pass s) of
        Inl e \<Rightarrow> (Inl e, snd (train_pass s))
      | Inr u \<Rightarrow> shuffle_data sh (snd (train_pass s)))"
  by (simp add: train_step_def split: prod.split sum.split)

lemma train_step_keeps [simp]:
  "weights_layer1 (snd (train_step sh s)) = weights_layer1 s"
  "weights_layer2 (snd (train_step sh s)) = weights_layer2 s"
  "stdout (snd (train_step sh s)) = stdout s"
  "beta (snd (train_step sh s)) = beta s"
  "outtype (snd (train_step sh s)) = outtype s"
  unfolding train_step_unfold by (simp_all split: sum.split)

lemma train_step_keeps_source [simp]:
  "shuffle_source (snd (train_step sh s)) = shuffle_source s"
  unfolding train_step_unfold by (simp split: sum.split)

lemma train_step_fits:
  assumes "shape (update_w1 s) = shape (heap s (weights_layer1 s))"
    and "shape (update_w2 s) = shape (heap s (weights_layer2 s))"
  shows "shape (update_w1 (snd (train_step sh s))) =
           shape (heap (snd (train_step sh s)) (weights_layer1 (snd (train_step sh s))))"
    and "shape (update_w2 (snd (train_step sh s))) =
           shape (heap (snd (train_step sh s)) (weights_layer2 (snd (train_step sh s))))"
  using assms unfolding train_step_unfold
  by (simp_all split: sum.split add: train_pass_shapes)

lemma train_step_other_arrays:
  assumes "r \<noteq> weights_layer1 s" and "r \<noteq> weights_layer2 s"
  shows "heap (snd (train_step sh s)) r = heap s r"
  using assms unfolding train_step_unfold
  by (simp split: sum.split add: train_pass_other_arrays)

lemma train_step_calls:
  assumes "fst (train_step sh s) = Inr sh'"
  shows "shuffle_calls (snd (train_step sh s)) = Suc (shuffle_calls s)"
  using assms unfolding train_step_unfold by (simp split: sum.splits)

lemma train_loop_Suc:
  "train_loop (Suc n) sh s =
     (case fst (train_step sh s) of
        Inl e \<Rightarrow> (Inl e, snd (train_step sh s))
      | Inr sh' \<Rightarrow> train_loop n sh' (snd (train_step sh s)))"
  by (simp split: prod.split sum.split)

lemma train_loop_keeps:
  "weights_layer1 (snd (train_loop n sh s)) = weights_layer1 s
   \<and> weights_layer2 (snd (train_loop n sh s)) = weights_layer2 s
   \<and> stdout (snd (train_loop n sh s)) = stdout s
   \<and> beta (snd (train_loop n sh s)) = beta s
   \<and> outtype (snd (train_loop n sh s)) = outtype s"
proof (induction n arbitrary: sh s)
  case 0
  show ?case by simp
next
  case (Suc n)
  show ?case
  proof (cases "fst (train_step sh s)")
    case (Inl e)
    then show ?thesis unfolding train_loop_Suc by simp
  next
    case (Inr sh')
    then show ?thesis unfolding train_loop_Suc using Suc.IH[of sh' "snd (train_step sh s)"] by simp
  qed
qed

lemma train_loop_other_arrays:
  assumes "r \<noteq> weights_layer1 s" and "r \<noteq> weights_layer2 s"
  shows "heap (snd (train_loop n sh s)) r = heap s r"
  using assms
proof (induction n arbitrary: sh s)
  case 0
  show ?case by simp
next
  case (Suc n)
  show ?case
  proof (cases "fst (train_step sh s)")
    case (Inl e)
    then show ?thesis unfolding train_loop_Suc using Suc.prems by (simp add: train_step_other_arrays)
  next
    case (Inr sh')
    have "heap (snd (train_loop n sh' (snd (train_step sh s)))) r = heap (snd (train_step sh s)) r"
      by (rule Suc.IH) (use Suc.prems in simp_all)
    then show ?thesis unfolding train_loop_Suc using Inr Suc.prems by (simp add: train_step_other_arrays)
  qed
qed

lemma train_loop_calls:
  assumes "fst (train_loop n sh s) = Inr ()"
  shows "shuffle_calls (snd (train_loop n sh s)) = shuffle_calls s + n"
  using assms
proof (induction n arbitrary: sh s)
  case 0
  show ?case by simp
next
  case (Suc n)
  from Suc.prems obtain sh' where st: "fst (train_step sh s) = Inr sh'"
    unfolding train_loop_Suc by (cases "fst (train_step sh s)") auto
  have rest: "fst (train_loop n sh' (snd (train_step sh s))) = Inr ()"
    using Suc.prems st unfolding train_loop_Suc by simp
  show ?case
    unfolding train_loop_Suc using st Suc.IH[OF rest] train_step_calls[OF st] by simp
qed

lemma train_keeps [simp]:
  "weights_layer1 (snd (train e it ot s)) = weights_layer1 s"
  "weights_layer2 (snd (train e it ot s)) = weights_layer2 s"
  "stdout (snd (train e it ot s)) = stdout s"
  "beta (snd (train e it ot s)) = beta s"
  "outtype (snd (train e it ot s)) = ot"
  unfolding train_def by (simp_all add: train_loop_keeps train_enter_state)

lemma train_other_arrays:
  assumes "r \<noteq> weights_layer1 s" and "r \<noteq> weights_layer2 s"
  shows "heap (snd (train e it ot s)) r = heap s r"
  unfolding train_def using assms
  by (simp add: train_loop_other_arrays train_enter_state)

lemma train_calls:
  assumes "fst (train e it ot s) = Inr ()"
  shows "shuffle_calls (snd (train e it ot s)) = shuffle_calls s + nat it"
  using train_loop_calls[OF assms[unfolded train_def]] unfolding train_def
  by (simp add: train_enter_state)

section \<open>An unrecognised \<^verbatim>\<open>outtype\<close>\<close>

lemma forward_unknown_outtype:
  assumes "outtype s \<noteq> ''linear''" and "outtype s \<noteq> ''logistic''" and "outtype s \<noteq> ''softmax''"
  shows "fst (forward x s) = Inl NameError \<or> fst (forward x s) = Inl ValueError"
  using assms
  by (auto simp: forward_def Let_def ny_dot_def ny_concatenate_def split: sum.splits if_splits)

lemma train_unknown_outtype_fails:
  assumes "0 < iterations"
    and "outtype' \<noteq> ''linear''" and "outtype' \<noteq> ''logistic''" and "outtype' \<noteq> ''softmax''"
  shows "(fst (train eta' iterations outtype' s) = Inl NameError
          \<or> fst (train eta' iterations outtype' s) = Inl ValueError)
    \<and> heap (snd (train eta' iterations outtype' s)) = heap s"
proof -
  define s0 where "s0 = train_enter eta' outtype' s"
  have ot: "outtype s0 \<noteq> ''linear''" "outtype s0 \<noteq> ''logistic''" "outtype s0 \<noteq> ''softmax''"
    and h0: "heap s0 = heap s"
    using assms by (simp_all add: s0_def train_enter_state)
  obtain n where n: "nat iterations = Suc n"
    using assms(1) by (cases "nat iterations") auto
  from forward_unknown_outtype[OF ot, of "inputs s0"]
  have f: "fst (forward (inputs s0) s0) = Inl NameError \<or> fst (forward (inputs s0) s0) = Inl ValueError" .
  then have p: "(fst (train_pass s0) = Inl NameError \<or> fst (train_pass s0) = Inl ValueError)
      \<and> heap (snd (train_pass s0)) = heap s0"
    unfolding train_pass_unfold Let_def by auto
  then have "(fst (train_step [0..<data_amount s] s0) = Inl NameError
        \<or> fst (train_step [0..<data_amount s] s0) = Inl ValueError)
      \<and> heap (snd (train_step [0..<data_amount s] s0)) = heap s0"
    unfolding train_step_unfold by auto
  then show ?thesis
    unfolding train_def n train_loop_Suc s0_def[symmetric] using h0 by auto
qed

lemma init_shapes:
  assumes "init g1 g2 src inputs' targets' h b m = Inr s"
  shows "ncols (inputs s) = nrows (heap s (weights_layer1 s))"
    and "nrows (heap s (weights_layer2 s)) = Suc (ncols (heap s (weights_layer1 s)))"
  using assms
  by (auto simp: init_def init_weights_def ny_concatenate_obj_def ny_concatenate_def
      ny_random_rand_def ny_array_def neg_ones_def Let_def nat_add_distrib
      split: if_splits sum.splits array_obj.splits)

lemma forward_unknown_name_error:
  assumes "ncols x = nrows (heap s (weights_layer1 s))"
    and "nrows (heap s (weights_layer2 s)) = Suc (ncols (heap s (weights_layer1 s)))"
    and "outtype s \<noteq> ''linear''" and "outtype s \<noteq> ''logistic''" and "outtype s \<noteq> ''softmax''"
  shows "fst (forward x s) = Inl NameError"
  using assms
  by (simp add: forward_def Let_def ny_dot_def ny_concatenate_def logistic_def neg_ones_def)

text \<open>
  Claim C1: training with an \<^verbatim>\<open>outtype\<close> other than the three recognised ones fails with
  an UnknownActivationError. The code has no such error: the branch of \<^verbatim>\<open>_forward\<close> for
  an unknown \<^verbatim>\<open>outtype\<close> only prints a message, and the message names the unbound
  variable \<^verbatim>\<open>outtype\<close>. In a network that the constructor has built the shapes of the
  data and of the two weight matrices fit, so the first forward phase reaches that branch:
  whatever weights were drawn, \<^verbatim>\<open>train\<close> with at least one iteration ends in a NameError,
  and no weight has changed.
\<close>

theorem train_unknown_outtype_name_error:
  assumes "init g1 g2 src inputs' targets' h b m = Inr s"
    and "0 < iterations"
    and "outtype' \<noteq> ''linear''" and "outtype' \<noteq> ''logistic''" and "outtype' \<noteq> ''softmax''"
  shows "fst (train eta' iterations outtype' s) = Inl NameError
    \<and> heap (snd (train eta' iterations outtype' s)) = heap s"
proof -
  define s0 where "s0 = train_enter eta' outtype' s"
  have ot: "outtype s0 \<noteq> ''linear''" "outtype s0 \<noteq> ''logistic''" "outtype s0 \<noteq> ''softmax''"
    and h0: "heap s0 = heap s"
    and sh: "ncols (inputs s0) = nrows (heap s0 (weights_layer1 s0))"
      "nrows (heap s0 (weights_layer2 s0)) = Suc (ncols (heap s0 (weights_layer1 s0)))"
    using assms(3-5) init_shapes[OF assms(1)] by (simp_all add: s0_def train_enter_state)
  obtain n where n: "nat iterations = Suc n"
    using assms(2) by (cases "nat iterations") auto
  have f: "fst (forward (inputs s0) s0) = Inl NameError"
    by (rule forward_unknown_name_error[OF sh ot])
  then have p: "fst (train_pass s0) = Inl NameError \<and> heap (snd (train_pass s0)) = heap s0"
    unfolding train_pass_unfold Let_def by auto
  then have "fst (train_step [0..<data_amount s] s0) = Inl NameError
      \<and> heap (snd (train_step [0..<data_amount s] s0)) = heap s0"
    unfolding train_step_unfold by auto
  then show ?thesis
    unfolding train_def n train_loop_Suc s0_def[symmetric] using h0 by auto
qed

theorem train_unknown_outtype_name_error_witness:
  "fst (train (1 / 5) 1000 ''tanh'' demo_net) = Inl NameError
   \<and> heap (snd (train (1 / 5) 1000 ''tanh'' demo_net)) = heap demo_net"
  using train_unknown_outtype_name_error [OF init_demo, of 1000 "''tanh''" "1 / 5"] by simp

section \<open>A pass that fails\<close>

lemma update_weights_failure_keeps_heap:
  assumes f1: "shape (update_w1 s) = shape (heap s (weights_layer1 s))"
    and f2: "shape (update_w2 s) = shape (heap s (weights_layer2 s))"
    and fail: "fst (update_weights deltao deltah s) = Inl e"
  shows "heap (snd (update_weights deltao deltah s)) = heap s"
proof -
  define s1 where "s1 = snd (accumulate_w1 deltah s)"
  define s2 where "s2 = snd (accumulate_w2 deltao s1)"
  define s3 where "s3 = snd (add_update_w1 s2)"
  have a1: "fst (add_update_w1 s2) = Inr ()"
    unfolding s2_def s1_def
    by (rule add_update_w1_fits) (simp add: accumulate_w1_shape f1)
  have sh3: "shape (heap s3 (weights_layer2 s3)) = shape (heap s (weights_layer2 s))"
    unfolding s3_def s2_def s1_def
    by (simp add: add_update_w1_heap shape_def)
  have a2: "fst (add_update_w2 s3) = Inr ()"
    by (rule add_update_w2_fits) (simp add: sh3, simp add: s3_def s2_def s1_def accumulate_w2_shape f2)
  show ?thesis
    using fail a1 a2 unfolding update_weights_unfold Let_def s1_def s2_def s3_def
    by (simp split: sum.splits)
qed

text \<open>
  Claim C3: a pass that raises leaves both weight matrices as they were when the pass
  began. The pass is lines 100 to 104 (forward phase, error computation, weight update).
  \<^verbatim>\<open>train\<close> sets each accumulator to zeros of the shape of its weight matrix before the
  first pass, and the passes keep these shapes (\<open>train_enter_fits\<close> and
  \<open>train_step_fits\<close> below); in such a state an error can only come before line 180, so
  the whole store is unchanged, and the two attributes still refer to the same arrays.
\<close>

theorem failed_pass_keeps_weights:
  assumes "shape (update_w1 s) = shape (heap s (weights_layer1 s))"
    and "shape (update_w2 s) = shape (heap s (weights_layer2 s))"
    and "fst (train_pass s) = Inl e"
  shows "heap (snd (train_pass s)) = heap s
    \<and> weights_layer1 (snd (train_pass s)) = weights_layer1 s
    \<and> weights_layer2 (snd (train_pass s)) = weights_layer2 s"
proof -
  have "heap (snd (train_pass s)) = heap s"
  proof (cases "fst (forward (inputs s) s)")
    case (Inl e1)
    then show ?thesis unfolding train_pass_unfold Let_def by simp
  next
    case (Inr out)
    define s2 where "s2 = (snd (forward (inputs s) s))\<lparr>outputs := out\<rparr>"
    show ?thesis
    proof (cases "compute_errors s2")
      case (Inl e2)
      then show ?thesis using Inr unfolding train_pass_unfold Let_def s2_def by simp
    next
      case d: (Inr d)
      have tp: "train_pass s = update_weights (fst d) (snd d) s2"
        using Inr d unfolding train_pass_unfold Let_def s2_def by simp
      have "heap (snd (update_weights (fst d) (snd d) s2)) = heap s2"
        by (rule update_weights_failure_keeps_heap[where e = e])
           (use assms tp in \<open>simp_all add: s2_def\<close>)
      then show ?thesis using tp by (simp add: s2_def)
    qed
  qed
  then show ?thesis by simp
qed

lemma demo_wide_pass: "fst (train_pass demo_wide) = Inl ValueError"
  by (simp add: train_pass_def forward_unfold compute_errors_def scale_deltao_def demo_wide_def
      train_enter_state demo_net_def array_eval)

theorem failed_pass_keeps_weights_witness:
  "fst (train_pass demo_wide) = Inl ValueError
   \<and> heap (snd (train_pass demo_wide)) = heap demo_wide
   \<and> weights_layer1 (snd (train_pass demo_wide)) = 0
   \<and> weights_layer2 (snd (train_pass demo_wide)) = 1"
proof -
  have f1: "shape (update_w1 demo_wide) = shape (heap demo_wide (weights_layer1 demo_wide))"
    and f2: "shape (update_w2 demo_wide) = shape (heap demo_wide (weights_layer2 demo_wide))"
    unfolding demo_wide_def by (rule train_enter_fits)+
  have w: "weights_layer1 demo_wide = 0" "weights_layer2 demo_wide = 1"
    by (simp_all add: demo_wide_def train_enter_state demo_net_def)
  from failed_pass_keeps_weights [OF f1 f2 demo_wide_pass] demo_wide_pass w
  show ?thesis by simp
qed

text \<open>
  The shuffle that follows the pass is outside it. With two input rows and one target
  row (which the constructor accepts) the first pass of \<^verbatim>\<open>train\<close> succeeds, the one target
  row being broadcast, and changes the second weight matrix; line 109 then raises
  IndexError.
\<close>

lemma shuffle_can_fail_after_the_pass:
  "fst (train (1 / 4) 1 ''logistic'' (demo_net\<lparr>targets := Arr2 (NDArray 1 [[0]])\<rparr>)) = Inl IndexError"
  "heap (snd (train (1 / 4) 1 ''logistic'' (demo_net\<lparr>targets := Arr2 (NDArray 1 [[0]])\<rparr>))) 1
     = NDArray 1 [[- (1 / 32)], [1 / 16]]"
  by (simp_all add: train_def train_enter_state train_step_def shuffle_data_def train_pass_def
      forward_unfold compute_errors_def scale_deltao_def update_weights_def accumulate_w1_def
      accumulate_w2_def add_update_w1_def add_update_w2_def rev_source_def demo_net_def
      array_eval)

section \<open>The error of the output layer\<close>

lemma compute_errors_shapes:
  assumes "compute_errors s = Inr (deltao, deltah)"
  shows "shape deltah = shape (hidden s)" and "ncols deltao = ncols (heap s (weights_layer2 s))"
proof -
  from assms obtain bk where
    b: "ny_dot deltao (ny_transpose (heap s (weights_layer2 s))) = Inr bk" and
    h: "arr_inplace (\<lambda>x y. x * y) (arr_map (\<lambda>x. x * (1 - x)) (hidden s)) bk = Inr deltah"
    by (auto simp: compute_errors_def split: sum.splits)
  show "shape deltah = shape (hidden s)"
    using arr_inplace_Inr(1)[OF h] by simp
  show "ncols deltao = ncols (heap s (weights_layer2 s))"
    using ny_dot_Inr(1)[OF b] by simp
qed

text \<open>
  Claim C6: \<open>deltao\<close> is \<^verbatim>\<open>targets - outputs\<close>, divided by \<open>data_amount\<close> for
  \<^verbatim>\<open>'linear'\<close> and \<^verbatim>\<open>'softmax'\<close>, multiplied entry by entry with
  \<^verbatim>\<open>outputs * (1 - outputs)\<close> for \<^verbatim>\<open>'logistic'\<close>. The difference is numpy's: its shape is
  the broadcast of the two shapes and it reads both operands through \<open>belem\<close>, which is
  \<open>elem\<close> wherever the index lies inside the operand (lemma \<open>belem_in_range\<close>).
  \<open>data_amount\<close> is the number of input rows the constructor was given, which is not 0.
\<close>

theorem compute_errors_deltao:
  assumes "compute_errors s = Inr (deltao, deltah)" and "targets s = Arr2 t"
    and "i < nrows deltao" and "j < ncols deltao" and "0 < data_amount s"
  shows "broadcast_shape (shape t) (shape (outputs s)) = Some (shape deltao)
    \<and> (outtype s = ''linear'' \<longrightarrow>
          elem deltao i j = (belem t i j - belem (outputs s) i j) / real (data_amount s))
    \<and> (outtype s = ''logistic'' \<longrightarrow>
          elem deltao i j = (belem t i j - belem (outputs s) i j)
                             * (belem (outputs s) i j * (1 - belem (outputs s) i j)))
    \<and> (outtype s = ''softmax'' \<longrightarrow>
          elem deltao i j = (belem t i j - belem (outputs s) i j) / real (data_amount s))"
proof -
  from assms(1,2) obtain d where d: "arr_binop (\<lambda>x y. x - y) t (outputs s) = Inr d"
    by (auto simp: compute_errors_def arr_sub_def split: sum.splits)
  from assms(1,2) d have sc: "scale_deltao s d = Inr deltao"
    by (auto simp: compute_errors_def arr_sub_def split: sum.splits)
  have shd: "shape deltao = shape d"
    using sc by (auto simp: scale_deltao_def split: if_splits dest: arr_inplace_Inr(1))
  then have ij: "i < nrows d" "j < ncols d"
    using assms(3,4) by (simp_all add: shape_def)
  have bs: "broadcast_shape (shape t) (shape (outputs s)) = Some (shape d)"
    by (rule arr_binop_Inr[OF d])
  have dij: "elem d i j = belem t i j - belem (outputs s) i j"
    by (rule elem_arr_binop[OF d ij])
  note idx = broadcast_shape_index[OF bs ij]
  have lin: "outtype s = ''linear'' \<or> outtype s = ''softmax'' \<Longrightarrow>
      elem deltao i j = (belem t i j - belem (outputs s) i j) / real (data_amount s)"
    using sc ij dij by (auto simp: scale_deltao_def elem_arr_map)
  have lgs: "outtype s = ''logistic'' \<Longrightarrow>
      elem deltao i j = (belem t i j - belem (outputs s) i j)
                             * (belem (outputs s) i j * (1 - belem (outputs s) i j))"
  proof -
    assume "outtype s = ''logistic''"
    then have "arr_inplace (\<lambda>x y. x * y) d (arr_map (\<lambda>x. x * (1 - x)) (outputs s)) = Inr deltao"
      using sc by (simp add: scale_deltao_def)
    from elem_arr_inplace[OF this ij] show ?thesis
      by (simp add: dij belem_arr_map[OF idx(3,4)])
  qed
  show ?thesis using bs shd lin lgs by simp
qed

lemma demo_logistic_errors:
  "compute_errors demo_logistic = Inr (NDArray 1 [[- (1 / 8)], [9 / 64]], NDArray 2 [[0, 0], [0, 0]])"
  by (simp add: compute_errors_def scale_deltao_def demo_logistic_def demo_net_def array_eval)

lemma demo_linear_errors:
  "compute_errors (demo_logistic\<lparr>outtype := ''linear''\<rparr>)
     = Inr (NDArray 1 [[- (1 / 4)], [3 / 8]], NDArray 2 [[0, 0], [0, 0]])"
  by (simp add: compute_errors_def scale_deltao_def demo_logistic_def demo_net_def array_eval)

theorem compute_errors_deltao_witness:
  "compute_errors demo_logistic = Inr (NDArray 1 [[- (1 / 8)], [9 / 64]], NDArray 2 [[0, 0], [0, 0]])
   \<and> elem (NDArray 1 [[- (1 / 8)], [9 / 64]]) 1 0 = (1 - 1 / 4) * (1 / 4 * (1 - 1 / 4))
   \<and> compute_errors (demo_logistic\<lparr>outtype := ''linear''\<rparr>)
       = Inr (NDArray 1 [[- (1 / 4)], [3 / 8]], NDArray 2 [[0, 0], [0, 0]])
   \<and> elem (NDArray 1 [[- (1 / 4)], [3 / 8]]) 1 0 = (1 - 1 / 4) / 2"
proof -
  have t: "targets demo_logistic = Arr2 (NDArray 1 [[0], [1]])"
    and o: "outputs demo_logistic = NDArray 1 [[1 / 2], [1 / 4]]"
    and ot: "outtype demo_logistic = ''logistic''"
    and n: "0 < data_amount demo_logistic" "real (data_amount demo_logistic) = 2"
    by (simp_all add: demo_logistic_def demo_net_def)
  have i: "1 < nrows (NDArray 1 [[- (1 / 8)], [9 / 64]])" and j: "0 < ncols (NDArray 1 [[- (1 / 8)], [9 / 64]])"
    by simp_all
  from compute_errors_deltao [OF demo_logistic_errors t i j n(1)] ot
  have a: "elem (NDArray 1 [[- (1 / 8)], [9 / 64]]) 1 0 =
      (belem (NDArray 1 [[0], [1]]) 1 0 - belem (outputs demo_logistic) 1 0)
        * (belem (outputs demo_logistic) 1 0 * (1 - belem (outputs demo_logistic) 1 0))"
    by simp
  have t': "targets (demo_logistic\<lparr>outtype := ''linear''\<rparr>) = Arr2 (NDArray 1 [[0], [1]])"
    and n': "0 < data_amount (demo_logistic\<lparr>outtype := ''linear''\<rparr>)"
    using t n by simp_all
  have i': "1 < nrows (NDArray 1 [[- (1 / 4)], [3 / 8]])" and j': "0 < ncols (NDArray 1 [[- (1 / 4)], [3 / 8]])"
    by simp_all
  from compute_errors_deltao [OF demo_linear_errors t' i' j' n']
  have b: "elem (NDArray 1 [[- (1 / 4)], [3 / 8]]) 1 0 =
      (belem (NDArray 1 [[0], [1]]) 1 0 - belem (outputs demo_logistic) 1 0) / real (data_amount demo_logistic)"
    by simp
  show ?thesis
    using a b demo_logistic_errors demo_linear_errors by (simp add: o n(2) belem_def elem_def)
qed

section \<open>The weight update\<close>

lemma accumulate_rule:
  assumes "arr_inplace (\<lambda>x y. x + y) (arr_map (\<lambda>x. m * x) u) (arr_map (\<lambda>x. e * x) g) = Inr u'"
    and "i < nrows u" and "j < ncols u"
  shows "elem u' i j = m * elem u i j + e * belem g i j"
proof -
  have ij: "i < nrows (arr_map (\<lambda>x. m * x) u)" "j < ncols (arr_map (\<lambda>x. m * x) u)"
    using assms(2,3) by simp_all
  have sh: "shape u' = shape (arr_map (\<lambda>x. m * x) u)"
    by (rule arr_inplace_Inr(1)[OF assms(1)])
  have bs: "broadcast_shape (shape (arr_map (\<lambda>x. m * x) u)) (shape g) = Some (shape u')"
    using arr_inplace_Inr(2)[OF assms(1)] sh by simp
  have ij': "i < nrows u'" "j < ncols u'"
    using sh assms(2,3) by (simp_all add: shape_def)
  note idx = broadcast_shape_index(3,4)[OF bs ij']
  from elem_arr_inplace[OF assms(1) ij] show ?thesis
    by (simp add: elem_arr_map assms(2,3) belem_arr_map[OF idx])
qed

lemma accumulate_w1_rule:
  assumes "fst (accumulate_w1 deltah s) = Inr ()"
  obtains g where "ny_dot (ny_transpose (inputs s)) (drop_last_col deltah) = Inr g"
    and "arr_inplace (\<lambda>x y. x + y) (arr_map (\<lambda>x. momentum s * x) (update_w1 s))
           (arr_map (\<lambda>x. eta s * x) g) = Inr (update_w1 (snd (accumulate_w1 deltah s)))"
  using assms unfolding accumulate_w1_def Let_def
  by (auto split: sum.splits)

lemma accumulate_w2_rule:
  assumes "fst (accumulate_w2 deltao s) = Inr ()"
  obtains g where "ny_dot (ny_transpose (hidden s)) deltao = Inr g"
    and "arr_inplace (\<lambda>x y. x + y) (arr_map (\<lambda>x. momentum s * x) (update_w2 s))
           (arr_map (\<lambda>x. eta s * x) g) = Inr (update_w2 (snd (accumulate_w2 deltao s)))"
  using assms unfolding accumulate_w2_def Let_def
  by (auto split: sum.splits)

lemma update_weights_steps:
  assumes "fst (update_weights deltao deltah s) = Inr ()"
  shows "fst (accumulate_w1 deltah s) = Inr ()"
    and "fst (accumulate_w2 deltao (snd (accumulate_w1 deltah s))) = Inr ()"
    and "fst (add_update_w1 (snd (accumulate_w2 deltao (snd (accumulate_w1 deltah s))))) = Inr ()"
    and "fst (add_update_w2 (snd (add_update_w1 (snd (accumulate_w2 deltao (snd (accumulate_w1 deltah s))))))) = Inr ()"
    and "snd (update_weights deltao deltah s) =
           snd (add_update_w2 (snd (add_update_w1 (snd (accumulate_w2 deltao (snd (accumulate_w1 deltah s)))))))"
  using assms unfolding update_weights_unfold Let_def
  by (simp_all split: sum.splits)

lemma update_weights_effect:
  assumes "update_weights deltao deltah s = (Inr (), s')"
    and "weights_layer1 s \<noteq> weights_layer2 s"
  shows "\<exists>g1 g2.
      ny_dot (ny_transpose (inputs s)) (drop_last_col deltah) = Inr g1
    \<and> ny_dot (ny_transpose (hidden s)) deltao = Inr g2
    \<and> shape g1 = (ncols (inputs s), ncols deltah - 1)
    \<and> shape g2 = (ncols (hidden s), ncols deltao)
    \<and> (\<forall>i<nrows g1. \<forall>j<ncols g1.
          elem g1 i j = (\<Sum>k\<leftarrow>[0..<nrows (inputs s)]. elem (inputs s) k i * elem deltah k j))
    \<and> (\<forall>i<nrows g2. \<forall>j<ncols g2.
          elem g2 i j = (\<Sum>k\<leftarrow>[0..<nrows (hidden s)]. elem (hidden s) k i * elem deltao k j))
    \<and> shape (update_w1 s') = shape (update_w1 s)
    \<and> shape (update_w2 s') = shape (update_w2 s)
    \<and> (\<forall>i<nrows (update_w1 s). \<forall>j<ncols (update_w1 s).
          elem (update_w1 s') i j = momentum s * elem (update_w1 s) i j + eta s * belem g1 i j)
    \<and> (\<forall>i<nrows (update_w2 s). \<forall>j<ncols (update_w2 s).
          elem (update_w2 s') i j = momentum s * elem (update_w2 s) i j + eta s * belem g2 i j)
    \<and> weights_layer1 s' = weights_layer1 s
    \<and> weights_layer2 s' = weights_layer2 s
    \<and> shape (heap s' (weights_layer1 s)) = shape (heap s (weights_layer1 s))
    \<and> shape (heap s' (weights_layer2 s)) = shape (heap s (weights_layer2 s))
    \<and> (\<forall>i<nrows (heap s (weights_layer1 s)). \<forall>j<ncols (heap s (weights_layer1 s)).
          elem (heap s' (weights_layer1 s)) i j =
            elem (heap s (weights_layer1 s)) i j + belem (update_w1 s') i j)
    \<and> (\<forall>i<nrows (heap s (weights_layer2 s)). \<forall>j<ncols (heap s (weights_layer2 s)).
          elem (heap s' (weights_layer2 s)) i j =
            elem (heap s (weights_layer2 s)) i j + belem (update_w2 s') i j)
    \<and> (\<forall>r. r \<noteq> weights_layer1 s \<and> r \<noteq> weights_layer2 s \<longrightarrow> heap s' r = heap s r)"
proof -
  define s1 where "s1 = snd (accumulate_w1 deltah s)"
  define s2 where "s2 = snd (accumulate_w2 deltao s1)"
  define s3 where "s3 = snd (add_update_w1 s2)"
  have ok: "fst (update_weights deltao deltah s) = Inr ()"
    using assms(1) by simp
  note st = update_weights_steps[OF ok, folded s1_def s2_def s3_def]
  have s': "s' = snd (add_update_w2 s3)"
    using st(5) assms(1) by simp
  from accumulate_w1_rule[OF st(1)] obtain g1 where
    g1: "ny_dot (ny_transpose (inputs s)) (drop_last_col deltah) = Inr g1" and
    u1: "arr_inplace (\<lambda>x y. x + y) (arr_map (\<lambda>x. momentum s * x) (update_w1 s))
           (arr_map (\<lambda>x. eta s * x) g1) = Inr (update_w1 s1)"
    unfolding s1_def by blast
  from accumulate_w2_rule[OF st(2)] obtain g2 where
    g2: "ny_dot (ny_transpose (hidden s)) deltao = Inr g2" and
    u2: "arr_inplace (\<lambda>x y. x + y) (arr_map (\<lambda>x. momentum s * x) (update_w2 s))
           (arr_map (\<lambda>x. eta s * x) g2) = Inr (update_w2 s2)"
    unfolding s2_def s1_def by auto
  have uw1: "update_w1 s' = update_w1 s1" and uw2: "update_w2 s' = update_w2 s2"
    by (simp_all add: s' s3_def s2_def)
  have refs: "weights_layer1 s' = weights_layer1 s" "weights_layer2 s' = weights_layer2 s"
    by (simp_all add: s' s3_def s2_def s1_def)
  have heap3: "heap s3 r =
      (if r = weights_layer1 s
       then tabulate2 (nrows (heap s r)) (ncols (heap s r))
              (\<lambda>i j. elem (heap s r) i j + belem (update_w1 s1) i j)
       else heap s r)" for r
    using st(3) by (simp add: s3_def add_update_w1_heap s2_def s1_def)
  have heap': "heap s' r =
      (if r = weights_layer2 s
       then tabulate2 (nrows (heap s r)) (ncols (heap s r))
              (\<lambda>i j. elem (heap s r) i j + belem (update_w2 s2) i j)
       else heap s3 r)" for r
  proof -
    have w23: "weights_layer2 s3 = weights_layer2 s" "update_w2 s3 = update_w2 s2"
      by (simp_all add: s3_def s2_def s1_def)
    have "heap s' r =
      (if r = weights_layer2 s3 \<and> fst (add_update_w2 s3) = Inr ()
       then tabulate2 (nrows (heap s3 r)) (ncols (heap s3 r))
              (\<lambda>i j. elem (heap s3 r) i j + belem (update_w2 s3) i j)
       else heap s3 r)"
      unfolding s' by (rule add_update_w2_heap)
    then show ?thesis
      using st(4) assms(2) by (simp add: w23 heap3)
  qed
  have sg1: "shape g1 = (ncols (inputs s), ncols deltah - 1)"
    using ny_dot_Inr[OF g1] by (simp add: shape_def)
  have sg2: "shape g2 = (ncols (hidden s), ncols deltao)"
    using ny_dot_Inr[OF g2] by (simp add: shape_def)
  have e1: "\<forall>i<nrows g1. \<forall>j<ncols g1.
      elem g1 i j = (\<Sum>k\<leftarrow>[0..<nrows (inputs s)]. elem (inputs s) k i * elem deltah k j)"
  proof (intro allI impI)
    fix i j assume i: "i < nrows g1" and j: "j < ncols g1"
    have n: "nrows (inputs s) = nrows deltah" and jc: "j < ncols deltah - 1"
      using ny_dot_Inr[OF g1] j by simp_all
    have "elem g1 i j =
        (\<Sum>k\<leftarrow>[0..<nrows (inputs s)]. elem (inputs s) k i * elem (drop_last_col deltah) k j)"
      by (rule elem_ny_dot_transpose[OF g1 i j])
    also have "\<dots> = (\<Sum>k\<leftarrow>[0..<nrows (inputs s)]. elem (inputs s) k i * elem deltah k j)"
      by (rule arg_cong[where f = sum_list], rule map_cong) (simp_all add: elem_drop_last_col[OF _ jc] n)
    finally show "elem g1 i j =
        (\<Sum>k\<leftarrow>[0..<nrows (inputs s)]. elem (inputs s) k i * elem deltah k j)" .
  qed
  have e2: "\<forall>i<nrows g2. \<forall>j<ncols g2.
      elem g2 i j = (\<Sum>k\<leftarrow>[0..<nrows (hidden s)]. elem (hidden s) k i * elem deltao k j)"
    using elem_ny_dot_transpose[OF g2] by blast
  have a1: "\<forall>i<nrows (update_w1 s). \<forall>j<ncols (update_w1 s).
      elem (update_w1 s') i j = momentum s * elem (update_w1 s) i j + eta s * belem g1 i j"
    unfolding uw1 using accumulate_rule[OF u1] by blast
  have a2: "\<forall>i<nrows (update_w2 s). \<forall>j<ncols (update_w2 s).
      elem (update_w2 s') i j = momentum s * elem (update_w2 s) i j + eta s * belem g2 i j"
    unfolding uw2 using accumulate_rule[OF u2] by blast
  have su1: "shape (update_w1 s') = shape (update_w1 s)"
    unfolding uw1 using arr_inplace_Inr(1)[OF u1] by simp
  have su2: "shape (update_w2 s') = shape (update_w2 s)"
    unfolding uw2 using arr_inplace_Inr(1)[OF u2] by simp
  have hs: "shape (heap s' (weights_layer1 s)) = shape (heap s (weights_layer1 s))"
    "shape (heap s' (weights_layer2 s)) = shape (heap s (weights_layer2 s))"
    using assms(2) by (simp_all add: heap' heap3 shape_def)
  have h1: "\<forall>i<nrows (heap s (weights_layer1 s)). \<forall>j<ncols (heap s (weights_layer1 s)).
      elem (heap s' (weights_layer1 s)) i j =
        elem (heap s (weights_layer1 s)) i j + belem (update_w1 s') i j"
    using assms(2) by (simp add: heap' heap3 uw1)
  have h2: "\<forall>i<nrows (heap s (weights_layer2 s)). \<forall>j<ncols (heap s (weights_layer2 s)).
      elem (heap s' (weights_layer2 s)) i j =
        elem (heap s (weights_layer2 s)) i j + belem (update_w2 s') i j"
    by (simp add: heap' uw2)
  have fr: "\<forall>r. r \<noteq> weights_layer1 s \<and> r \<noteq> weights_layer2 s \<longrightarrow> heap s' r = heap s r"
    by (simp add: heap' heap3)
  show ?thesis
    apply (rule exI[of _ g1], rule exI[of _ g2])
    apply (intro conjI)
    apply (rule g1 g2 sg1 sg2 e1 e2 su1 su2 a1 a2 refs hs h1 h2 fr)+
    done
qed

text \<open>
  Claim C5: the weight update sets each accumulator to
  \<open>momentum \<cdot> old accumulator + eta \<cdot> (transpose(layer inputs) \<cdot> delta)\<close>, with \<open>deltah\<close>
  without its last column for layer 1, and then adds the new accumulator to the weight
  matrix in place. \<open>g1\<close> and \<open>g2\<close> are the two matrix products, given entry by entry.
  In place: both attributes refer to the arrays they referred to before, these two arrays
  of the store have changed by the accumulators, and no other array has changed. The two
  weight matrices are two arrays. The augmented assignments read their right operand
  through \<open>belem\<close>, the entry itself when the shapes agree.
\<close>

theorem update_weights_momentum_rule:
  assumes "update_weights deltao deltah s = (Inr (), s')"
    and "weights_layer1 s \<noteq> weights_layer2 s"
  shows "\<exists>g1 g2.
      ny_dot (ny_transpose (inputs s)) (drop_last_col deltah) = Inr g1
    \<and> ny_dot (ny_transpose (hidden s)) deltao = Inr g2
    \<and> shape g1 = (ncols (inputs s), ncols deltah - 1)
    \<and> shape g2 = (ncols (hidden s), ncols deltao)
    \<and> (\<forall>i<nrows g1. \<forall>j<ncols g1.
          elem g1 i j = (\<Sum>k\<leftarrow>[0..<nrows (inputs s)]. elem (inputs s) k i * elem deltah k j))
    \<and> (\<forall>i<nrows g2. \<forall>j<ncols g2.
          elem g2 i j = (\<Sum>k\<leftarrow>[0..<nrows (hidden s)]. elem (hidden s) k i * elem deltao k j))
    \<and> shape (update_w1 s') = shape (update_w1 s)
    \<and> shape (update_w2 s') = shape (update_w2 s)
    \<and> (\<forall>i<nrows (update_w1 s). \<forall>j<ncols (update_w1 s).
          elem (update_w1 s') i j = momentum s * elem (update_w1 s) i j + eta s * belem g1 i j)
    \<and> (\<forall>i<nrows (update_w2 s). \<forall>j<ncols (update_w2 s).
          elem (update_w2 s') i j = momentum s * elem (update_w2 s) i j + eta s * belem g2 i j)
    \<and> weights_layer1 s' = weights_layer1 s
    \<and> weights_layer2 s' = weights_layer2 s
    \<and> shape (heap s' (weights_layer1 s)) = shape (heap s (weights_layer1 s))
    \<and> shape (heap s' (weights_layer2 s)) = shape (heap s (weights_layer2 s))
    \<and> (\<forall>i<nrows (heap s (weights_layer1 s)). \<forall>j<ncols (heap s (weights_layer1 s)).
          elem (heap s' (weights_layer1 s)) i j =
            elem (heap s (weights_layer1 s)) i j + belem (update_w1 s') i j)
    \<and> (\<forall>i<nrows (heap s (weights_layer2 s)). \<forall>j<ncols (heap s (weights_layer2 s)).
          elem (heap s' (weights_layer2 s)) i j =
            elem (heap s (weights_layer2 s)) i j + belem (update_w2 s') i j)
    \<and> (\<forall>r. r \<noteq> weights_layer1 s \<and> r \<noteq> weights_layer2 s \<longrightarrow> heap s' r = heap s r)"
  using assms by (rule update_weights_effect)

lemma demo_update_run:
  "fst (update_weights (NDArray 1 [[1], [1]]) (NDArray 2 [[2, 0], [4, 0]]) demo_update) = Inr ()"
  by (simp add: update_weights_def accumulate_w1_def accumulate_w2_def add_update_w1_def
      add_update_w2_def demo_update_def demo_net_def array_eval)

lemma demo_update_g1:
  "ny_dot (ny_transpose (inputs demo_update)) (drop_last_col (NDArray 2 [[2, 0], [4, 0]])) =
     Inr (NDArray 1 [[4], [- 6]])"
  by (simp add: demo_update_def demo_net_def array_eval)

theorem update_weights_momentum_rule_witness:
  "fst (update_weights (NDArray 1 [[1], [1]]) (NDArray 2 [[2, 0], [4, 0]]) demo_update) = Inr ()
   \<and> elem (update_w1 (snd (update_weights (NDArray 1 [[1], [1]]) (NDArray 2 [[2, 0], [4, 0]])
         demo_update))) 0 0 = 9 / 10 * 1 + 1 / 4 * 4
   \<and> weights_layer1 (snd (update_weights (NDArray 1 [[1], [1]]) (NDArray 2 [[2, 0], [4, 0]])
         demo_update)) = 0"
proof -
  define s' where
    "s' = snd (update_weights (NDArray 1 [[1], [1]]) (NDArray 2 [[2, 0], [4, 0]]) demo_update)"
  have run: "update_weights (NDArray 1 [[1], [1]]) (NDArray 2 [[2, 0], [4, 0]]) demo_update = (Inr (), s')"
    unfolding s'_def using demo_update_run by (simp add: prod_eq_iff)
  have ne: "weights_layer1 demo_update \<noteq> weights_layer2 demo_update"
    by (simp add: demo_update_def demo_net_def)
  have v: "momentum demo_update = 9 / 10" "eta demo_update = 1 / 4"
    "update_w1 demo_update = NDArray 1 [[1], [0]]" "weights_layer1 demo_update = 0"
    by (simp_all add: demo_update_def demo_net_def)
  from update_weights_momentum_rule [OF run ne] obtain g1 where
    g1: "ny_dot (ny_transpose (inputs demo_update)) (drop_last_col (NDArray 2 [[2, 0], [4, 0]])) = Inr g1"
    and acc: "\<forall>i<nrows (update_w1 demo_update). \<forall>j<ncols (update_w1 demo_update).
          elem (update_w1 s') i j =
            momentum demo_update * elem (update_w1 demo_update) i j + eta demo_update * belem g1 i j"
    and ref: "weights_layer1 s' = weights_layer1 demo_update"
    by blast
  have "g1 = NDArray 1 [[4], [- 6]]"
    using g1 demo_update_g1 by simp
  with acc have "elem (update_w1 s') 0 0 = 9 / 10 * 1 + 1 / 4 * 4"
    by (simp add: v belem_def elem_def)
  then show ?thesis
    using demo_update_run ref by (simp add: s'_def v)
qed

section \<open>The first pass of a call of \<^verbatim>\<open>train\<close>\<close>

text \<open>
  Claim C7: \<^verbatim>\<open>train\<close> starts by setting both accumulators to zero matrices, so the first
  pass of the call adds \<open>eta\<close> times the gradient term to each weight matrix, whatever the
  momentum and whatever the accumulators held before the call. The first pass of
  \<^verbatim>\<open>train(eta, iterations, outtype)\<close> is \<open>train_pass\<close> in the state \<open>train_enter\<close> leaves;
  \<open>g1\<close> and \<open>g2\<close> are the gradient terms of that pass, which have the shapes of the two
  weight matrices.
\<close>

theorem fresh_train_first_pass:
  assumes "train_pass (train_enter eta' outtype' s) = (Inr (), s')"
    and "weights_layer1 s \<noteq> weights_layer2 s"
  shows "update_w1 (train_enter eta' outtype' s) = ny_zeros (shape (heap s (weights_layer1 s)))
    \<and> update_w2 (train_enter eta' outtype' s) = ny_zeros (shape (heap s (weights_layer2 s)))
    \<and> (\<exists>out deltao deltah g1 g2.
          fst (forward (inputs s) (train_enter eta' outtype' s)) = Inr out
        \<and> compute_errors ((snd (forward (inputs s) (train_enter eta' outtype' s)))\<lparr>outputs := out\<rparr>)
            = Inr (deltao, deltah)
        \<and> ny_dot (ny_transpose (inputs s)) (drop_last_col deltah) = Inr g1
        \<and> ny_dot (ny_transpose (hidden (snd (forward (inputs s) (train_enter eta' outtype' s)))))
             deltao = Inr g2
        \<and> shape g1 = shape (heap s (weights_layer1 s))
        \<and> shape g2 = shape (heap s (weights_layer2 s))
        \<and> (\<forall>i<nrows (heap s (weights_layer1 s)). \<forall>j<ncols (heap s (weights_layer1 s)).
              elem (heap s' (weights_layer1 s)) i j =
                elem (heap s (weights_layer1 s)) i j + eta' * elem g1 i j)
        \<and> (\<forall>i<nrows (heap s (weights_layer2 s)). \<forall>j<ncols (heap s (weights_layer2 s)).
              elem (heap s' (weights_layer2 s)) i j =
                elem (heap s (weights_layer2 s)) i j + eta' * elem g2 i j))"
proof -
  define s0 where "s0 = train_enter eta' outtype' s"
  have s0: "heap s0 = heap s" "weights_layer1 s0 = weights_layer1 s"
    "weights_layer2 s0 = weights_layer2 s" "inputs s0 = inputs s" "eta s0 = eta'"
    "update_w1 s0 = ny_zeros (shape (heap s (weights_layer1 s)))"
    "update_w2 s0 = ny_zeros (shape (heap s (weights_layer2 s)))"
    by (simp_all add: s0_def train_enter_state)
  from train_pass_success[OF assms(1)[folded s0_def]] obtain out deltao deltah where
    fw: "fst (forward (inputs s0) s0) = Inr out" and
    ce: "compute_errors ((snd (forward (inputs s0) s0))\<lparr>outputs := out\<rparr>) = Inr (deltao, deltah)" and
    uw: "update_weights deltao deltah ((snd (forward (inputs s0) s0))\<lparr>outputs := out\<rparr>) = (Inr (), s')"
    by blast
  note fw = fw[unfolded s0(4)] and ce = ce[unfolded s0(4)] and uw = uw[unfolded s0(4)]
  define s2 where "s2 = (snd (forward (inputs s) s0))\<lparr>outputs := out\<rparr>"
  have s2: "heap s2 = heap s" "weights_layer1 s2 = weights_layer1 s"
    "weights_layer2 s2 = weights_layer2 s" "inputs s2 = inputs s" "eta s2 = eta'"
    "update_w1 s2 = ny_zeros (shape (heap s (weights_layer1 s)))"
    "update_w2 s2 = ny_zeros (shape (heap s (weights_layer2 s)))"
    "hidden s2 = hidden (snd (forward (inputs s) s0))"
    by (simp_all add: s2_def s0)
  note fs = forward_shapes[OF fw, unfolded s0]
  note cs = compute_errors_shapes[OF ce, folded s2_def, unfolded s2]
  have ne2: "weights_layer1 s2 \<noteq> weights_layer2 s2"
    using assms(2) by (simp add: s2)
  from update_weights_effect[OF uw[folded s2_def] ne2] obtain g1 g2 where
    g1': "ny_dot (ny_transpose (inputs s2)) (drop_last_col deltah) = Inr g1" and
    g2': "ny_dot (ny_transpose (hidden s2)) deltao = Inr g2" and
    sg1': "shape g1 = (ncols (inputs s2), ncols deltah - 1)" and
    sg2': "shape g2 = (ncols (hidden s2), ncols deltao)" and
    su1': "shape (update_w1 s') = shape (update_w1 s2)" and
    su2': "shape (update_w2 s') = shape (update_w2 s2)" and
    a1': "\<forall>i<nrows (update_w1 s2). \<forall>j<ncols (update_w1 s2).
          elem (update_w1 s') i j = momentum s2 * elem (update_w1 s2) i j + eta s2 * belem g1 i j" and
    a2': "\<forall>i<nrows (update_w2 s2). \<forall>j<ncols (update_w2 s2).
          elem (update_w2 s') i j = momentum s2 * elem (update_w2 s2) i j + eta s2 * belem g2 i j" and
    h1': "\<forall>i<nrows (heap s2 (weights_layer1 s2)). \<forall>j<ncols (heap s2 (weights_layer1 s2)).
          elem (heap s' (weights_layer1 s2)) i j =
            elem (heap s2 (weights_layer1 s2)) i j + belem (update_w1 s') i j" and
    h2': "\<forall>i<nrows (heap s2 (weights_layer2 s2)). \<forall>j<ncols (heap s2 (weights_layer2 s2)).
          elem (heap s' (weights_layer2 s2)) i j =
            elem (heap s2 (weights_layer2 s2)) i j + belem (update_w2 s') i j"
    by (elim exE conjE) (rule that; assumption)
  note g1 = g1'[unfolded s2] and g2 = g2'[unfolded s2]
    and sg1 = sg1'[unfolded s2] and sg2 = sg2'[unfolded s2]
    and h1 = h1'[unfolded s2] and h2 = h2'[unfolded s2]
  have su1: "shape (update_w1 s') = shape (heap s (weights_layer1 s))"
    and su2: "shape (update_w2 s') = shape (heap s (weights_layer2 s))"
    using su1' su2' by (simp_all add: s2)
  have a1: "\<forall>i<nrows (heap s (weights_layer1 s)). \<forall>j<ncols (heap s (weights_layer1 s)).
          elem (update_w1 s') i j =
            momentum s2 * elem (ny_zeros (shape (heap s (weights_layer1 s)))) i j + eta' * belem g1 i j"
    using a1' by (simp add: s2 nrows_shape ncols_shape)
  have a2: "\<forall>i<nrows (heap s (weights_layer2 s)). \<forall>j<ncols (heap s (weights_layer2 s)).
          elem (update_w2 s') i j =
            momentum s2 * elem (ny_zeros (shape (heap s (weights_layer2 s)))) i j + eta' * belem g2 i j"
    using a2' by (simp add: s2 nrows_shape ncols_shape)
  have eq1: "shape g1 = shape (heap s (weights_layer1 s))"
    using sg1 fs cs by (simp add: shape_def)
  have eq2: "shape g2 = shape (heap s (weights_layer2 s))"
    using sg2 fs cs by (simp add: shape_def)
  have r1: "\<forall>i<nrows (heap s (weights_layer1 s)). \<forall>j<ncols (heap s (weights_layer1 s)).
      elem (heap s' (weights_layer1 s)) i j = elem (heap s (weights_layer1 s)) i j + eta' * elem g1 i j"
  proof (intro allI impI)
    fix i j assume ij: "i < nrows (heap s (weights_layer1 s))" "j < ncols (heap s (weights_layer1 s))"
    have b1: "belem (update_w1 s') i j = elem (update_w1 s') i j"
      by (rule belem_in_range) (use su1 ij in \<open>simp_all add: shape_def\<close>)
    have b2: "belem g1 i j = elem g1 i j"
      by (rule belem_in_range) (use eq1 ij in \<open>simp_all add: shape_def\<close>)
    have z: "elem (ny_zeros (shape (heap s (weights_layer1 s)))) i j = 0"
      by (rule elem_ny_zeros) (use ij in \<open>simp_all add: shape_def\<close>)
    show "elem (heap s' (weights_layer1 s)) i j = elem (heap s (weights_layer1 s)) i j + eta' * elem g1 i j"
      using h1 a1 ij by (simp add: b1 b2 z)
  qed
  have r2: "\<forall>i<nrows (heap s (weights_layer2 s)). \<forall>j<ncols (heap s (weights_layer2 s)).
      elem (heap s' (weights_layer2 s)) i j = elem (heap s (weights_layer2 s)) i j + eta' * elem g2 i j"
  proof (intro allI impI)
    fix i j assume ij: "i < nrows (heap s (weights_layer2 s))" "j < ncols (heap s (weights_layer2 s))"
    have b1: "belem (update_w2 s') i j = elem (update_w2 s') i j"
      by (rule belem_in_range) (use su2 ij in \<open>simp_all add: shape_def\<close>)
    have b2: "belem g2 i j = elem g2 i j"
      by (rule belem_in_range) (use eq2 ij in \<open>simp_all add: shape_def\<close>)
    have z: "elem (ny_zeros (shape (heap s (weights_layer2 s)))) i j = 0"
      by (rule elem_ny_zeros) (use ij in \<open>simp_all add: shape_def\<close>)
    show "elem (heap s' (weights_layer2 s)) i j = elem (heap s (weights_layer2 s)) i j + eta' * elem g2 i j"
      using h2 a2 ij by (simp add: b1 b2 z)
  qed
  have ex: "\<exists>out deltao deltah g1 g2.
          fst (forward (inputs s) s0) = Inr out
        \<and> compute_errors ((snd (forward (inputs s) s0))\<lparr>outputs := out\<rparr>) = Inr (deltao, deltah)
        \<and> ny_dot (ny_transpose (inputs s)) (drop_last_col deltah) = Inr g1
        \<and> ny_dot (ny_transpose (hidden (snd (forward (inputs s) s0)))) deltao = Inr g2
        \<and> shape g1 = shape (heap s (weights_layer1 s))
        \<and> shape g2 = shape (heap s (weights_layer2 s))
        \<and> (\<forall>i<nrows (heap s (weights_layer1 s)). \<forall>j<ncols (heap s (weights_layer1 s)).
              elem (heap s' (weights_layer1 s)) i j =
                elem (heap s (weights_layer1 s)) i j + eta' * elem g1 i j)
        \<and> (\<forall>i<nrows (heap s (weights_layer2 s)). \<forall>j<ncols (heap s (weights_layer2 s)).
              elem (heap s' (weights_layer2 s)) i j =
                elem (heap s (weights_layer2 s)) i j + eta' * elem g2 i j)"
    apply (rule exI[of _ out], rule exI[of _ deltao], rule exI[of _ deltah])
    apply (rule exI[of _ g1], rule exI[of _ g2])
    using fw ce g1 g2 eq1 eq2 r1 r2
    apply (intro conjI)
    apply assumption+
    done
  show ?thesis
    using ex s0(6,7) unfolding s0_def by (intro conjI)
qed

lemma demo_fresh_pass:
  "fst (train_pass demo_fresh) = Inr ()"
  "heap (snd (train_pass demo_fresh)) 0 = NDArray 1 [[0], [0]]"
  "heap (snd (train_pass demo_fresh)) 1 = NDArray 1 [[- (1 / 32)], [1 / 16]]"
  by (simp_all add: train_pass_def forward_unfold compute_errors_def scale_deltao_def
      update_weights_def accumulate_w1_def accumulate_w2_def add_update_w1_def add_update_w2_def
      demo_fresh_def train_enter_state demo_update_def demo_net_def array_eval)

theorem fresh_train_first_pass_witness:
  "fst (train_pass (train_enter (1 / 4) ''logistic'' demo_update)) = Inr ()
   \<and> update_w1 demo_update = NDArray 1 [[1], [0]]
   \<and> update_w1 (train_enter (1 / 4) ''logistic'' demo_update) = NDArray 1 [[0], [0]]
   \<and> heap (snd (train_pass (train_enter (1 / 4) ''logistic'' demo_update))) 1
       = NDArray 1 [[0 + 1 / 4 * - (1 / 8)], [0 + 1 / 4 * (1 / 4)]]"
proof -
  have run: "train_pass (train_enter (1 / 4) ''logistic'' demo_update) =
      (Inr (), snd (train_pass (train_enter (1 / 4) ''logistic'' demo_update)))"
    using demo_fresh_pass(1) by (simp add: prod_eq_iff demo_fresh_def)
  have ne: "weights_layer1 demo_update \<noteq> weights_layer2 demo_update"
    by (simp add: demo_update_def demo_net_def)
  have sh: "shape (heap demo_update (weights_layer1 demo_update)) = (2, 1)"
    by (simp add: demo_update_def demo_net_def shape_def)
  from fresh_train_first_pass [OF run ne]
  have "update_w1 (train_enter (1 / 4) ''logistic'' demo_update) = ny_zeros (2, 1)"
    unfolding sh by blast
  then show ?thesis
    using demo_fresh_pass
    by (simp add: demo_fresh_def demo_update_def array_eval)
qed

section \<open>The shuffle of the data set\<close>

lemma train_step_permutes:
  assumes "train_step shuffle s = (Inr shuffle', s')"
    and "mset (shuffle_source s (shuffle_calls s) shuffle) = mset shuffle"
    and "mset shuffle = mset [0..<nrows (inputs s)]"
  shows "\<exists>t t'. targets s = Arr2 t \<and> targets s' = Arr2 t'
    \<and> shuffle' = shuffle_source s (shuffle_calls s) shuffle
    \<and> rows (inputs s') = map (\<lambda>i. rows (inputs s) ! i) shuffle'
    \<and> rows t' = map (\<lambda>i. rows t ! i) shuffle'
    \<and> ncols (inputs s') = ncols (inputs s) \<and> ncols t' = ncols t
    \<and> (\<forall>i<nrows (inputs s). \<exists>k<nrows (inputs s').
          rows (inputs s') ! k = rows (inputs s) ! i \<and> rows t' ! k = rows t ! i)
    \<and> mset (zip (rows (inputs s')) (rows t')) = mset (zip (rows (inputs s)) (rows t))
    \<and> mset shuffle' = mset [0..<nrows (inputs s')]"
proof -
  define s1 where "s1 = snd (train_pass s)"
  have sd: "shuffle_data shuffle s1 = (Inr shuffle', s')"
    using assms(1) unfolding train_step_unfold s1_def by (simp split: sum.splits)
  have s1: "inputs s1 = inputs s" "targets s1 = targets s"
    "shuffle_source s1 = shuffle_source s" "shuffle_calls s1 = shuffle_calls s"
    by (simp_all add: s1_def)
  from shuffle_data_success[OF sd] obtain t t' where
    t: "targets s = Arr2 t" and t': "targets s' = Arr2 t'" and
    sh: "shuffle' = shuffle_source s (shuffle_calls s) shuffle" and
    ti: "take_rows (inputs s) shuffle' = Inr (inputs s')" and
    tt: "take_rows t shuffle' = Inr t'"
    unfolding s1 by blast
  have perm: "mset shuffle' = mset [0..<nrows (inputs s)]"
    using assms(2,3) sh by simp
  then have set: "set shuffle' = {0..<nrows (inputs s)}"
    by (metis mset_eq_setD set_upt)
  have len: "length shuffle' = nrows (inputs s)"
    using perm by (metis mset_eq_length length_upt diff_zero)
  have ri: "rows (inputs s') = map (\<lambda>i. rows (inputs s) ! i) shuffle'"
    by (rule take_rows_Inr(1)[OF ti])
  have rt: "rows t' = map (\<lambda>i. rows t ! i) shuffle'"
    by (rule take_rows_Inr(1)[OF tt])
  have n': "nrows (inputs s') = nrows (inputs s)"
    using ri len by (simp add: nrows_def)
  have inb: "nrows (inputs s) \<le> nrows t"
  proof (cases "nrows (inputs s)")
    case 0
    then show ?thesis by simp
  next
    case (Suc m)
    then have "m \<in> set shuffle'" using set by simp
    then have "m < nrows t" using take_rows_Inr(3)[OF tt] by blast
    then show ?thesis using Suc by simp
  qed
  have pairs: "\<forall>i<nrows (inputs s). \<exists>k<nrows (inputs s').
      rows (inputs s') ! k = rows (inputs s) ! i \<and> rows t' ! k = rows t ! i"
  proof (intro allI impI)
    fix i assume "i < nrows (inputs s)"
    then have "i \<in> set shuffle'" using set by simp
    then obtain k where k: "k < length shuffle'" "shuffle' ! k = i"
      by (auto simp: in_set_conv_nth)
    show "\<exists>k<nrows (inputs s'). rows (inputs s') ! k = rows (inputs s) ! i \<and> rows t' ! k = rows t ! i"
      by (rule exI[of _ k]) (use k len n' in \<open>simp add: ri rt\<close>)
  qed
  have "zip (rows (inputs s')) (rows t') = map (\<lambda>i. (rows (inputs s) ! i, rows t ! i)) shuffle'"
    by (simp add: ri rt zip_map_map zip_same_conv_map)
  then have "mset (zip (rows (inputs s')) (rows t')) =
      mset (map (\<lambda>i. (rows (inputs s) ! i, rows t ! i)) [0..<length (rows (inputs s))])"
    by (simp only: mset_map perm nrows_def)
  also have "\<dots> = mset (zip (rows (inputs s)) (rows t))"
    using zip_rows_nth[of "rows (inputs s)" "rows t"] inb by (simp add: nrows_def)
  finally have z: "mset (zip (rows (inputs s')) (rows t')) = mset (zip (rows (inputs s)) (rows t))" .
  show ?thesis
    apply (rule exI[of _ t], rule exI[of _ t'])
    using t t' sh ri rt pairs z perm n' take_rows_Inr(2)[OF ti] take_rows_Inr(2)[OF tt]
    apply simp
    done
qed

lemma train_loop_keeps_pairs:
  assumes "\<forall>k xs. mset (shuffle_source s k xs) = mset xs"
    and "mset sh = mset [0..<nrows (inputs s)]"
    and "targets s = Arr2 t"
    and "train_loop n sh s = (Inr (), s')"
  shows "\<exists>t'. targets s' = Arr2 t'
    \<and> mset (zip (rows (inputs s')) (rows t')) = mset (zip (rows (inputs s)) (rows t))"
  using assms
proof (induction n arbitrary: sh s t)
  case 0
  then show ?case by simp
next
  case (Suc n)
  from Suc.prems(4) obtain sh1 s1 where
    step: "train_step sh s = (Inr sh1, s1)" and rest: "train_loop n sh1 s1 = (Inr (), s')"
    by (auto split: prod.splits sum.splits)
  have src: "mset (shuffle_source s (shuffle_calls s) sh) = mset sh"
    using Suc.prems(1) by blast
  from train_step_permutes[OF step src Suc.prems(2)] Suc.prems(3) obtain t1 where
    t1: "targets s1 = Arr2 t1" and
    z1: "mset (zip (rows (inputs s1)) (rows t1)) = mset (zip (rows (inputs s)) (rows t))" and
    p1: "mset sh1 = mset [0..<nrows (inputs s1)]"
    by auto
  have s1: "shuffle_source s1 = shuffle_source s"
    using train_step_keeps_source[of sh s] step by simp
  from Suc.IH[OF _ p1 t1 rest] Suc.prems(1) s1 obtain t' where
    "targets s' = Arr2 t'" and
    "mset (zip (rows (inputs s')) (rows t')) = mset (zip (rows (inputs s1)) (rows t1))"
    by auto
  then show ?case using z1 by simp
qed

lemma train_keeps_pairs:
  assumes "\<forall>k xs. mset (shuffle_source s k xs) = mset xs"
    and "data_amount s = nrows (inputs s)"
    and "targets s = Arr2 t"
    and "train eta' iterations outtype' s = (Inr (), s')"
  shows "\<exists>t'. targets s' = Arr2 t'
    \<and> mset (zip (rows (inputs s')) (rows t')) = mset (zip (rows (inputs s)) (rows t))"
proof -
  define s0 where "s0 = train_enter eta' outtype' s"
  have s0: "shuffle_source s0 = shuffle_source s" "inputs s0 = inputs s" "targets s0 = targets s"
    by (simp_all add: s0_def train_enter_state)
  have run: "train_loop (nat iterations) [0..<data_amount s] s0 = (Inr (), s')"
    using assms(4) unfolding train_def s0_def .
  from train_loop_keeps_pairs[OF _ _ _ run, of t] assms(1-3) show ?thesis
    by (simp add: s0)
qed

text \<open>
  Claim C8: every iteration of \<^verbatim>\<open>train\<close> permutes the stored inputs and targets with
  the same permutation, so every input row stays with its target row. Lines 107 to 109
  index both arrays with the one shuffled list \<^verbatim>\<open>shuffle\<close>. \<^verbatim>\<open>ny.random.shuffle\<close> is taken
  to permute the list it is given, and \<^verbatim>\<open>shuffle\<close> to be a permutation of the row indices
  when the iteration begins: \<^verbatim>\<open>train\<close> starts from \<^verbatim>\<open>range(data_amount)\<close>, and the last
  conjunct hands the property on to the next iteration.
\<close>

theorem train_step_same_permutation:
  assumes "train_step shuffle s = (Inr shuffle', s')"
    and "mset (shuffle_source s (shuffle_calls s) shuffle) = mset shuffle"
    and "mset shuffle = mset [0..<nrows (inputs s)]"
  shows "\<exists>t t'. targets s = Arr2 t \<and> targets s' = Arr2 t'
    \<and> shuffle' = shuffle_source s (shuffle_calls s) shuffle
    \<and> rows (inputs s') = map (\<lambda>i. rows (inputs s) ! i) shuffle'
    \<and> rows t' = map (\<lambda>i. rows t ! i) shuffle'
    \<and> ncols (inputs s') = ncols (inputs s) \<and> ncols t' = ncols t
    \<and> (\<forall>i<nrows (inputs s). \<exists>k<nrows (inputs s').
          rows (inputs s') ! k = rows (inputs s) ! i \<and> rows t' ! k = rows t ! i)
    \<and> mset (zip (rows (inputs s')) (rows t')) = mset (zip (rows (inputs s)) (rows t))
    \<and> mset shuffle' = mset [0..<nrows (inputs s')]"
  using assms by (rule train_step_permutes)

lemma demo_labelled_step: "fst (train_step [0, 1] demo_labelled) = Inr [1, 0]"
  by (simp add: train_step_def shuffle_data_def train_pass_def forward_unfold compute_errors_def
      scale_deltao_def update_weights_def accumulate_w1_def accumulate_w2_def add_update_w1_def
      add_update_w2_def demo_labelled_def train_enter_state demo_logistic_def demo_net_def
      rev_source_def array_eval)

theorem train_step_same_permutation_witness:
  "fst (train_step [0, 1] demo_labelled) = Inr [1, 0]
   \<and> rows (inputs demo_labelled) = [[0, - 1], [1, - 1]]
   \<and> targets demo_labelled = Arr2 (NDArray 1 [[0], [1]])
   \<and> rows (inputs (snd (train_step [0, 1] demo_labelled))) = [[1, - 1], [0, - 1]]
   \<and> targets (snd (train_step [0, 1] demo_labelled)) = Arr2 (NDArray 1 [[1], [0]])"
proof -
  have run: "train_step [0, 1] demo_labelled = (Inr [1, 0], snd (train_step [0, 1] demo_labelled))"
    using demo_labelled_step by (simp add: prod_eq_iff)
  have v: "inputs demo_labelled = NDArray 2 [[0, - 1], [1, - 1]]"
    "targets demo_labelled = Arr2 (NDArray 1 [[0], [1]])"
    "shuffle_source demo_labelled = rev_source" "shuffle_calls demo_labelled = 0"
    by (simp_all add: demo_labelled_def train_enter_state demo_logistic_def demo_net_def)
  have p1: "mset (shuffle_source demo_labelled (shuffle_calls demo_labelled) [0, 1]) = mset [0, 1]"
    by (simp add: v rev_source_def)
  have p2: "mset [0, 1] = mset [0..<nrows (inputs demo_labelled)]"
    by (simp add: v eval_nat_numeral)
  from train_step_same_permutation [OF run p1 p2] obtain t t' where
    "targets demo_labelled = Arr2 t" and
    "targets (snd (train_step [0, 1] demo_labelled)) = Arr2 t'" and
    "rows (inputs (snd (train_step [0, 1] demo_labelled))) =
       map (\<lambda>i. rows (inputs demo_labelled) ! i) [1, 0]" and
    "rows t' = map (\<lambda>i. rows t ! i) [1, 0]" and
    "ncols t' = ncols t"
    by blast
  then show ?thesis
    using demo_labelled_step v(1,2)
    by (cases t') (auto simp: array_eval)
qed

section \<open>Inference\<close>

lemma augmented_row:
  "ny_concatenate_obj (ny_array [x]) (neg_ones 1) = Inr (NDArray (Suc (length x)) [x @ [- 1]])"
proof -
  have one: "[0..<Suc 0] = [0]" by simp
  have "map (\<lambda>j. if j < length x then [x] ! 0 ! j else [[- 1::real]] ! 0 ! (j - length x))
          [0..<Suc (length x)] = x @ [- 1]"
    by (intro nth_equalityI) (auto simp: nth_append less_Suc_eq simp del: upt_Suc)
  then show ?thesis
    unfolding ny_concatenate_obj_def ny_array_def ny_concatenate_def neg_ones_def
      tabulate2_def elem_def nrows_def
    by (simp add: one del: upt_Suc cong: if_cong)
qed

text \<open>
  Claim C9: \<^verbatim>\<open>use\<close> appends the bias feature to the raw input vector and computes what
  the forward phase computes with the logistic output activation, whatever \<^verbatim>\<open>outtype\<close>
  the network holds. The array it hands to the matrix products is the one row
  \<open>x @ [- 1]\<close>; its result, a value or an error, is that of \<^verbatim>\<open>_forward\<close> in the same
  network with \<^verbatim>\<open>outtype\<close> set to \<^verbatim>\<open>'logistic'\<close>, and does not depend on \<^verbatim>\<open>outtype\<close>.
\<close>

theorem use_is_logistic_forward:
  "use x s = fst (forward (NDArray (Suc (length x)) [x @ [- 1]]) (s\<lparr>outtype := ''logistic''\<rparr>))
   \<and> use x (s\<lparr>outtype := ot\<rparr>) = use x s"
  unfolding use_def forward_unfold augmented_row Let_def
  by (simp split: sum.split)

theorem use_is_logistic_forward_witness:
  "use [1] (demo_net\<lparr>outtype := ''linear''\<rparr>) = Inr (NDArray 1 [[1 / 2]])
   \<and> fst (forward (NDArray 2 [[1, - 1]]) (demo_net\<lparr>outtype := ''logistic''\<rparr>))
       = Inr (NDArray 1 [[1 / 2]])"
proof -
  have "fst (forward (NDArray 2 [[1, - 1]]) (demo_net\<lparr>outtype := ''logistic''\<rparr>))
      = Inr (NDArray 1 [[1 / 2]])"
    by (simp add: forward_unfold demo_net_def array_eval)
  then show ?thesis
    using use_is_logistic_forward [of "[1]" demo_net "''linear''"] by (simp add: eval_nat_numeral)
qed

section \<open>Early stopping\<close>

lemma validation_error_unfold:
  "validation_error valid vt s =
     (case fst (forward valid s) of
        Inl e \<Rightarrow> (Inl e, snd (forward valid s))
      | Inr validout \<Rightarrow>
          (case arr_binop (\<lambda>x y. x - y) (heap s vt) validout of
             Inl e \<Rightarrow> (Inl e, snd (forward valid s))
           | Inr d \<Rightarrow> (Inr (0.5 * ny_sum (arr_map (\<lambda>x. x ^ 2) d)), snd (forward valid s))))"
proof -
  obtain r s1 where f: "forward valid s = (r, s1)"
    by (cases "forward valid s")
  have "heap s1 = heap s"
    using forward_keeps(1)[of valid s] f by simp
  then show ?thesis
    by (simp add: validation_error_def f split: sum.split)
qed

lemma validation_error_state: "snd (validation_error valid vt s) = snd (forward valid s)"
  unfolding validation_error_unfold by (simp split: sum.split)

lemma validation_error_Inr:
  assumes "fst (validation_error valid vt s) = Inr err"
  obtains validout d where "fst (forward valid s) = Inr validout"
    and "arr_binop (\<lambda>x y. x - y) (heap s vt) validout = Inr d"
    and "err = 0.5 * ny_sum (arr_map (\<lambda>x. x ^ 2) d)"
  using assms unfolding validation_error_unfold
  by (auto split: sum.splits)

lemma validation_error_again:
  assumes "fst (validation_error valid vt s) = Inr err"
  shows "fst (validation_error valid vt (snd (validation_error valid vt s))) = Inr err"
proof -
  have st: "snd (validation_error valid vt s) = s\<lparr>hidden := hidden (snd (forward valid s))\<rparr>"
    unfolding validation_error_state by (rule forward_state)
  from validation_error_Inr[OF assms] obtain validout d where
    f: "fst (forward valid s) = Inr validout" and
    b: "arr_binop (\<lambda>x y. x - y) (heap s vt) validout = Inr d" and
    e: "err = 0.5 * ny_sum (arr_map (\<lambda>x. x ^ 2) d)"
    by blast
  show ?thesis
    unfolding st unfolding validation_error_unfold by (simp add: f b e)
qed

lemma validation_error_ignores_stdout:
  "fst (validation_error valid vt (s\<lparr>stdout := out\<rparr>)) = fst (validation_error valid vt s)"
  unfolding validation_error_unfold by (simp split: sum.split)

lemma early_round_unfold:
  "early_round valid vt e it ot count1 nw s =
     (let s1 = (if count1 mod 10 = 0 then s\<lparr>stdout := stdout s @ [Progress count1 nw]\<rparr> else s) in
      case fst (train e it ot s1) of
        Inl err \<Rightarrow> (Inl err, snd (train e it ot s1))
      | Inr u \<Rightarrow> validation_error valid vt (snd (train e it ot s1)))"
  by (simp add: early_round_def Let_def split: prod.split sum.split)

lemma early_round_keeps:
  "weights_layer1 (snd (early_round valid vt e it ot count1 nw s)) = weights_layer1 s"
  "weights_layer2 (snd (early_round valid vt e it ot count1 nw s)) = weights_layer2 s"
proof -
  define s1 where "s1 = (if count1 mod 10 = 0 then s\<lparr>stdout := stdout s @ [Progress count1 nw]\<rparr> else s)"
  have s1: "weights_layer1 s1 = weights_layer1 s" "weights_layer2 s1 = weights_layer2 s"
    by (simp_all add: s1_def)
  show "weights_layer1 (snd (early_round valid vt e it ot count1 nw s)) = weights_layer1 s"
    unfolding early_round_unfold Let_def s1_def[symmetric] validation_error_state
    by (cases "fst (train e it ot s1)") (simp_all add: s1 validation_error_state)
  show "weights_layer2 (snd (early_round valid vt e it ot count1 nw s)) = weights_layer2 s"
    unfolding early_round_unfold Let_def s1_def[symmetric] validation_error_state
    by (cases "fst (train e it ot s1)") (simp_all add: s1 validation_error_state)
qed

lemma early_round_other_arrays:
  assumes "r \<noteq> weights_layer1 s" and "r \<noteq> weights_layer2 s"
  shows "heap (snd (early_round valid vt e it ot count1 nw s)) r = heap s r"
proof -
  define s1 where "s1 = (if count1 mod 10 = 0 then s\<lparr>stdout := stdout s @ [Progress count1 nw]\<rparr> else s)"
  have s1: "weights_layer1 s1 = weights_layer1 s" "weights_layer2 s1 = weights_layer2 s"
    "heap s1 = heap s"
    by (simp_all add: s1_def)
  have "heap (snd (train e it ot s1)) r = heap s r"
    using train_other_arrays[of r s1 e it ot] assms by (simp add: s1)
  then show ?thesis
    unfolding early_round_unfold Let_def s1_def[symmetric]
    by (cases "fst (train e it ot s1)") (simp_all add: validation_error_state)
qed

lemma early_round_calls:
  assumes "fst (early_round valid vt e it ot count1 nw s) = Inr err"
  shows "shuffle_calls (snd (early_round valid vt e it ot count1 nw s)) = shuffle_calls s + nat it"
    and "fst (validation_error valid vt (snd (early_round valid vt e it ot count1 nw s))) = Inr err"
proof -
  define s1 where "s1 = (if count1 mod 10 = 0 then s\<lparr>stdout := stdout s @ [Progress count1 nw]\<rparr> else s)"
  have c1: "shuffle_calls s1 = shuffle_calls s" by (simp add: s1_def)
  from assms have tr: "fst (train e it ot s1) = Inr ()"
    unfolding early_round_unfold Let_def s1_def by (simp split: sum.splits if_splits)
  have er: "early_round valid vt e it ot count1 nw s = validation_error valid vt (snd (train e it ot s1))"
    unfolding early_round_unfold Let_def s1_def[symmetric] using tr by simp
  show "shuffle_calls (snd (early_round valid vt e it ot count1 nw s)) = shuffle_calls s + nat it"
    unfolding er validation_error_state using train_calls[OF tr] c1 by simp
  show "fst (validation_error valid vt (snd (early_round valid vt e it ot count1 nw s))) = Inr err"
    unfolding er by (rule validation_error_again) (use assms er in simp)
qed

lemma early_loop_frame:
  assumes "early_loop valid vt e it ot v s = Some y"
  shows "weights_layer1 (snd y) = weights_layer1 s \<and> weights_layer2 (snd y) = weights_layer2 s
    \<and> (\<forall>r. r \<noteq> weights_layer1 s \<and> r \<noteq> weights_layer2 s \<longrightarrow> heap (snd y) r = heap s r)"
proof (rule early_loop.raw_induct[where P = "\<lambda>valid vt e it ot v s y.
    weights_layer1 (snd y) = weights_layer1 s \<and> weights_layer2 (snd y) = weights_layer2 s
    \<and> (\<forall>r. r \<noteq> weights_layer1 s \<and> r \<noteq> weights_layer2 s \<longrightarrow> heap (snd y) r = heap s r)",
    OF _ assms])
  fix f :: "ndarray \<Rightarrow> nat \<Rightarrow> real \<Rightarrow> int \<Rightarrow> string \<Rightarrow> real \<times> real \<times> real \<times> int \<Rightarrow> mlp
      \<Rightarrow> ((error + int \<times> real) \<times> mlp) option"
  fix valid vt e it ot v s y
  assume IH: "\<And>valid vt e it ot v s y. f valid vt e it ot v s = Some y \<Longrightarrow>
      weights_layer1 (snd y) = weights_layer1 s \<and> weights_layer2 (snd y) = weights_layer2 s
      \<and> (\<forall>r. r \<noteq> weights_layer1 s \<and> r \<noteq> weights_layer2 s \<longrightarrow> heap (snd y) r = heap s r)"
  assume body: "(case v of (old_val_err1, old_val_err2, new_val_err, count0) \<Rightarrow>
        if old_val_err1 - new_val_err > 0.001 \<or> old_val_err2 - old_val_err1 > 0.001
        then
          (let count1 = count0 + 1 in
           case early_round valid vt e it ot count1 new_val_err s of
             (Inl e, s1) \<Rightarrow> Some (Inl e, s1)
           | (Inr err, s1) \<Rightarrow> f valid vt e it ot (new_val_err, old_val_err1, err, count1) s1)
        else Some (Inr (count0, new_val_err), s)) = Some y"
  obtain o1 o2 nw c0 where v: "v = (o1, o2, nw, c0)" by (cases v)
  obtain res s1 where r: "early_round valid vt e it ot (c0 + 1) nw s = (res, s1)"
    by (cases "early_round valid vt e it ot (c0 + 1) nw s")
  have k1: "weights_layer1 s1 = weights_layer1 s" "weights_layer2 s1 = weights_layer2 s"
    using early_round_keeps[of valid vt e it ot "c0 + 1" nw s] r by simp_all
  have h1: "r' \<noteq> weights_layer1 s \<Longrightarrow> r' \<noteq> weights_layer2 s \<Longrightarrow> heap s1 r' = heap s r'" for r'
    using early_round_other_arrays[of r' s valid vt e it ot "c0 + 1" nw] r by simp
  show "weights_layer1 (snd y) = weights_layer1 s \<and> weights_layer2 (snd y) = weights_layer2 s
    \<and> (\<forall>r. r \<noteq> weights_layer1 s \<and> r \<noteq> weights_layer2 s \<longrightarrow> heap (snd y) r = heap s r)"
  proof (cases "o1 - nw > 0.001 \<or> o2 - o1 > 0.001")
    case False
    then have "y = (Inr (c0, nw), s)" using body v by simp
    then show ?thesis by simp
  next
    case True
    show ?thesis
    proof (cases res)
      case (Inl err)
      then have "y = (Inl err, s1)" using body v True r by (simp add: Let_def)
      then show ?thesis using k1 h1 by simp
    next
      case (Inr err)
      then have "f valid vt e it ot (nw, o1, err, c0 + 1) s1 = Some y"
        using body v True r by (simp add: Let_def)
      from IH[OF this] show ?thesis using k1 h1 by simp
    qed
  qed
qed

lemma early_loop_result:
  assumes "early_loop valid vt e it ot (o1, o2, nw, c0) s = Some (Inr (c, err), s')"
  shows "c0 \<le> c \<and> shuffle_calls s' = shuffle_calls s + nat (c - c0) * nat it
    \<and> ((c = c0 \<and> err = nw \<and> s' = s \<and> \<not> (o1 - nw > 0.001 \<or> o2 - o1 > 0.001))
       \<or> (c0 < c \<and> fst (validation_error valid vt s') = Inr err))"
proof -
  let ?P = "\<lambda>(valid :: ndarray) (vt :: nat) (e :: real) (it :: int) (ot :: string)
      (v :: real \<times> real \<times> real \<times> int) (s :: mlp) (y :: (error + int \<times> real) \<times> mlp).
    \<forall>o1 o2 nw c0 c err s'. v = (o1, o2, nw, c0) \<and> y = (Inr (c, err), s') \<longrightarrow>
      c0 \<le> c \<and> shuffle_calls s' = shuffle_calls s + nat (c - c0) * nat it
      \<and> ((c = c0 \<and> err = nw \<and> s' = s \<and> \<not> (o1 - nw > 0.001 \<or> o2 - o1 > 0.001))
         \<or> (c0 < c \<and> fst (validation_error valid vt s') = Inr err))"
  have "?P valid vt e it ot (o1, o2, nw, c0) s (Inr (c, err), s')"
  proof (rule early_loop.raw_induct[where P = ?P, OF _ assms])
    fix f :: "ndarray \<Rightarrow> nat \<Rightarrow> real \<Rightarrow> int \<Rightarrow> string \<Rightarrow> real \<times> real \<times> real \<times> int \<Rightarrow> mlp
        \<Rightarrow> ((error + int \<times> real) \<times> mlp) option"
    fix valid vt e it ot v s y
    assume IH: "\<And>valid vt e it ot v s y. f valid vt e it ot v s = Some y \<Longrightarrow> ?P valid vt e it ot v s y"
    assume body: "(case v of (old_val_err1, old_val_err2, new_val_err, count0) \<Rightarrow>
          if old_val_err1 - new_val_err > 0.001 \<or> old_val_err2 - old_val_err1 > 0.001
          then
            (let count1 = count0 + 1 in
             case early_round valid vt e it ot count1 new_val_err s of
               (Inl e, s1) \<Rightarrow> Some (Inl e, s1)
             | (Inr err, s1) \<Rightarrow> f valid vt e it ot (new_val_err, old_val_err1, err, count1) s1)
          else Some (Inr (count0, new_val_err), s)) = Some y"
    show "?P valid vt e it ot v s y"
    proof (intro allI impI, elim conjE)
      fix o1 o2 nw c0 c err s'
      assume v: "v = (o1, o2, nw, c0)" and y: "y = (Inr (c, err), s')"
      obtain res s1 where r: "early_round valid vt e it ot (c0 + 1) nw s = (res, s1)"
        by (cases "early_round valid vt e it ot (c0 + 1) nw s")
      show "c0 \<le> c \<and> shuffle_calls s' = shuffle_calls s + nat (c - c0) * nat it
        \<and> ((c = c0 \<and> err = nw \<and> s' = s \<and> \<not> (o1 - nw > 0.001 \<or> o2 - o1 > 0.001))
           \<or> (c0 < c \<and> fst (validation_error valid vt s') = Inr err))"
      proof (cases "o1 - nw > 0.001 \<or> o2 - o1 > 0.001")
        case False
        then have "c = c0" "s' = s" "err = nw" using body v y by simp_all
        then show ?thesis using False by simp
      next
        case True
        show ?thesis
        proof (cases res)
          case (Inl err')
          then show ?thesis using body v y True r by (simp add: Let_def)
        next
          case (Inr err1)
          then have rec: "f valid vt e it ot (nw, o1, err1, c0 + 1) s1 = Some (Inr (c, err), s')"
            using body v y True r by (simp add: Let_def)
          have fr: "fst (early_round valid vt e it ot (c0 + 1) nw s) = Inr err1"
            using r Inr by simp
          have c1: "shuffle_calls s1 = shuffle_calls s + nat it"
            using early_round_calls(1)[OF fr] r by simp
          have v1: "fst (validation_error valid vt s1) = Inr err1"
            using early_round_calls(2)[OF fr] r by simp
          from IH[OF rec] have
            le: "c0 + 1 \<le> c" and
            calls: "shuffle_calls s' = shuffle_calls s1 + nat (c - (c0 + 1)) * nat it" and
            alt: "(c = c0 + 1 \<and> err = err1 \<and> s' = s1 \<and> \<not> (nw - err1 > 0.001 \<or> o1 - nw > 0.001))
               \<or> (c0 + 1 < c \<and> fst (validation_error valid vt s') = Inr err)"
            by blast+
          have n: "nat (c - c0) = Suc (nat (c - (c0 + 1)))"
            using le by simp
          have total: "shuffle_calls s' = shuffle_calls s + nat (c - c0) * nat it"
            unfolding calls c1 n by simp
          have fin: "fst (validation_error valid vt s') = Inr err"
            using alt v1 by auto
          show ?thesis using le total fin by simp
        qed
      qed
    qed
  qed
  then show ?thesis by simp
qed

lemma early_stopping_cases:
  assumes "early_stopping valid vt e it ot s = Some (res, s')"
  obtains (shape_error) err where "ny_concatenate (heap s valid) (neg_ones (nrows (heap s valid))) = Inl err"
      and "res = Inl err" and "s' = s"
  | (loop_error) valid' err where
      "ny_concatenate (heap s valid) (neg_ones (nrows (heap s valid))) = Inr valid'"
      and "early_loop valid' vt e it ot (100002, 100001, 100000, 0) s = Some (Inl err, s')"
      and "res = Inl err"
  | (finished) valid' c err s1 where
      "ny_concatenate (heap s valid) (neg_ones (nrows (heap s valid))) = Inr valid'"
      and "early_loop valid' vt e it ot (100002, 100001, 100000, 0) s = Some (Inr (c, err), s1)"
      and "res = Inr None" and "s' = s1\<lparr>stdout := stdout s1 @ [Finished c err]\<rparr>"
  using assms unfolding early_stopping_def
  by (auto split: sum.splits option.splits prod.splits)

lemmas run_defs =
  early_stopping_def early_round_def validation_error_def train_def train_enter_state
  train_step_def shuffle_data_def train_pass_def forward_unfold compute_errors_def
  scale_deltao_def update_weights_def accumulate_w1_def accumulate_w2_def add_update_w1_def
  add_update_w2_def rev_source_def

lemma demo_valid_run:
  "map_option fst (early_stopping 2 3 (1 / 4) 1 ''linear'' demo_valid) = Some (Inr None)"
  "map_option (\<lambda>y. stdout (snd y)) (early_stopping 2 3 (1 / 4) 1 ''linear'' demo_valid)
     = Some [Finished 3 0]"
  "map_option (\<lambda>y. shuffle_calls (snd y)) (early_stopping 2 3 (1 / 4) 1 ''linear'' demo_valid)
     = Some 3"
  by (simp_all add: early_loop.simps run_defs demo_valid_def demo_net_def array_eval)

text \<open>
  Claim C10: when \<^verbatim>\<open>early_stopping\<close> returns, the caller's validation inputs and
  validation targets are as they were. The bias column goes to a new array (line 65), and
  the targets are only read (line 78). The only arrays the method changes in place are the
  two weight matrices; they belong to the network (section 3 of the specification), so the
  caller's two arrays are other arrays than these. The theorem covers the return by an
  exception as well.
\<close>

theorem early_stopping_keeps_validation_arrays:
  assumes "early_stopping valid validtargets eta' iterations outtype' s = Some (res, s')"
    and "valid \<noteq> weights_layer1 s" and "valid \<noteq> weights_layer2 s"
    and "validtargets \<noteq> weights_layer1 s" and "validtargets \<noteq> weights_layer2 s"
  shows "heap s' valid = heap s valid \<and> heap s' validtargets = heap s validtargets"
  using assms(1)
proof (cases rule: early_stopping_cases)
  case (shape_error err)
  then show ?thesis by simp
next
  case (loop_error valid' err)
  from early_loop_frame[OF loop_error(2)] assms(2-5) show ?thesis by simp
next
  case (finished valid' c err s1)
  from early_loop_frame[OF finished(2)] assms(2-5) finished(4) show ?thesis by simp
qed

theorem early_stopping_keeps_validation_arrays_witness:
  "map_option fst (early_stopping 2 3 (1 / 4) 1 ''linear'' demo_valid) = Some (Inr None)
   \<and> map_option (\<lambda>y. heap (snd y) 2) (early_stopping 2 3 (1 / 4) 1 ''linear'' demo_valid)
       = Some (NDArray 1 [[1]])
   \<and> map_option (\<lambda>y. heap (snd y) 3) (early_stopping 2 3 (1 / 4) 1 ''linear'' demo_valid)
       = Some (NDArray 1 [[0]])"
proof -
  from demo_valid_run(1) obtain s' where
    run: "early_stopping 2 3 (1 / 4) 1 ''linear'' demo_valid = Some (Inr None, s')"
    by (cases "early_stopping 2 3 (1 / 4) 1 ''linear'' demo_valid") auto
  have refs: "2 \<noteq> weights_layer1 demo_valid" "2 \<noteq> weights_layer2 demo_valid"
    "3 \<noteq> weights_layer1 demo_valid" "3 \<noteq> weights_layer2 demo_valid"
    by (simp_all add: demo_valid_def demo_net_def)
  have before: "heap demo_valid 2 = NDArray 1 [[1]]" "heap demo_valid 3 = NDArray 1 [[0]]"
    by (simp_all add: demo_valid_def demo_net_def)
  from early_stopping_keeps_validation_arrays [OF run refs] show ?thesis
    by (simp add: run before)
qed

text \<open>
  Claim C4 as the specification has it: a call of \<^verbatim>\<open>early_stopping\<close> that terminates
  returns the pair of the round count and the final validation error. It does not hold:
  the method has no \<^verbatim>\<open>return\<close> statement. On the small network, with a validation row
  at reference 2 and its target at reference 3, the call ends after three rounds with the
  error 0, prints these two numbers, and returns \<^verbatim>\<open>None\<close>.
\<close>

theorem early_stopping_returns_no_pair:
  "map_option fst (early_stopping 2 3 (1 / 4) 1 ''linear'' demo_valid) = Some (Inr None)
   \<and> map_option (\<lambda>y. stdout (snd y)) (early_stopping 2 3 (1 / 4) 1 ''linear'' demo_valid)
       = Some [Finished 3 0]"
  using demo_valid_run(1,2) by simp

text \<open>
  Claim C4, amended: a call of \<^verbatim>\<open>early_stopping\<close> that returns normally returns
  \<^verbatim>\<open>None\<close>; the round count and the final validation error are the two numbers of the
  line it prints last. The count is at least 1 and is the number of rounds: every round is
  one call of \<^verbatim>\<open>train\<close>, and the random source has been asked for \<open>count\<close> times
  \<open>iterations\<close> shuffles. The error is the validation error of the weights the call
  leaves behind, \<open>0.5 \<cdot> \<Sum> (validtargets - validout)\<^sup>2\<close> over the bias-augmented
  validation inputs.
\<close>

theorem early_stopping_prints_result:
  assumes "early_stopping valid validtargets eta' iterations outtype' s = Some (Inr r, s')"
  shows "r = None
    \<and> (\<exists>count err valid' validout d.
          stdout s' \<noteq> [] \<and> last (stdout s') = Finished count err
        \<and> 1 \<le> count
        \<and> shuffle_calls s' = shuffle_calls s + nat count * nat iterations
        \<and> ny_concatenate (heap s valid) (neg_ones (nrows (heap s valid))) = Inr valid'
        \<and> fst (forward valid' s') = Inr validout
        \<and> arr_binop (\<lambda>x y. x - y) (heap s' validtargets) validout = Inr d
        \<and> err = 0.5 * ny_sum (arr_map (\<lambda>x. x ^ 2) d))"
  using assms
proof (cases rule: early_stopping_cases)
  case (shape_error err)
  then show ?thesis by simp
next
  case (loop_error valid' err)
  then show ?thesis by simp
next
  case (finished valid' c err s1)
  from early_loop_result[OF finished(2)] have
    c: "1 \<le> c" and
    calls: "shuffle_calls s1 = shuffle_calls s + nat c * nat iterations" and
    ve: "fst (validation_error valid' validtargets s1) = Inr err"
    by auto
  have "fst (validation_error valid' validtargets s') = Inr err"
    unfolding finished(4) validation_error_ignores_stdout by (rule ve)
  from validation_error_Inr[OF this] obtain validout d where
    f: "fst (forward valid' s') = Inr validout" and
    b: "arr_binop (\<lambda>x y. x - y) (heap s' validtargets) validout = Inr d" and
    e: "err = 0.5 * ny_sum (arr_map (\<lambda>x. x ^ 2) d)"
    by blast
  have out: "stdout s' \<noteq> []" "last (stdout s') = Finished c err"
    and calls': "shuffle_calls s' = shuffle_calls s + nat c * nat iterations"
    using calls by (simp_all add: finished(4))
  show ?thesis
    apply (rule conjI)
     apply (use finished(3) in simp)
    apply (rule exI[of _ c], rule exI[of _ err], rule exI[of _ valid'])
    apply (rule exI[of _ validout], rule exI[of _ d])
    using out c calls' finished(1) f b e
    apply (intro conjI)
    apply assumption+
    done
qed

theorem early_stopping_prints_result_witness:
  "map_option fst (early_stopping 2 3 (1 / 4) 1 ''linear'' demo_valid) = Some (Inr None)
   \<and> map_option (\<lambda>y. last (stdout (snd y))) (early_stopping 2 3 (1 / 4) 1 ''linear'' demo_valid)
       = Some (Finished 3 0)
   \<and> map_option (\<lambda>y. shuffle_calls (snd y)) (early_stopping 2 3 (1 / 4) 1 ''linear'' demo_valid)
       = Some (0 + nat 3 * nat 1)"
proof -
  from demo_valid_run(1) obtain s' where
    run: "early_stopping 2 3 (1 / 4) 1 ''linear'' demo_valid = Some (Inr None, s')"
    by (cases "early_stopping 2 3 (1 / 4) 1 ''linear'' demo_valid") auto
  have out: "stdout s' = [Finished 3 0]"
    using demo_valid_run(2) run by simp
  have c0: "shuffle_calls demo_valid = 0"
    by (simp add: demo_valid_def demo_net_def)
  from early_stopping_prints_result [OF run] obtain count err where
    "last (stdout s') = Finished count err" and
    "shuffle_calls s' = shuffle_calls demo_valid + nat count * nat 1"
    by blast
  then show ?thesis
    using run out c0 by simp
qed

end
